theory Spec2Isabelle
  imports Complex_Main "HOL-Library.AList"
begin

section \<open>Values, exceptions and JSON\<close>

text \<open>
  The academic service (\<^verbatim>\<open>src/acad-service/main.py\<close>) is a set of request handlers over a
  relational store. The store is a record of tables (lists of rows, in table order), each
  handler is a function from the store to a result, and every \<^verbatim>\<open>raise\<close> is a value
  \<open>Inl e\<close> of the result type.

  Numbers: \<^verbatim>\<open>sks\<close>, \<^verbatim>\<open>semester\<close>, \<^verbatim>\<open>angkatan\<close> are Python's unbounded integers
  (\<open>int\<close>). The weights (\<^verbatim>\<open>bobot\<close>, a decimal column) and everything computed from them
  (\<^verbatim>\<open>mutu\<close>, \<^verbatim>\<open>ips\<close>, \<^verbatim>\<open>ipk\<close>) are Python floats in the source; here they are exact
  rationals, so \<open>+\<close>, \<open>*\<close> and \<open>/\<close> are the exact operations and the representation error
  of binary floating point is outside the model.
\<close>

datatype json =
    JNull
  | JBool bool
  | JNum int
  | JStr string
  | JArr "json list"
  | JObj "(string \<times> json) list"

datatype exn =
    HTTPException int string
  | RequestValidationError
  | RequestError string
  | ZeroDivisionError string
  | Exception string

text \<open>
  \<^verbatim>\<open>str(e)\<close> of an exception that is not an \<^verbatim>\<open>HTTPException\<close>.
  \<open>RequestValidationError\<close> is the framework's rejection of a request (422) before a handler
  runs; no handler raises it.
\<close>

fun str_exn :: "exn \<Rightarrow> string" where
  "str_exn (HTTPException c d) = d"
| "str_exn RequestValidationError = ''validation error''"
| "str_exn (RequestError m) = m"
| "str_exn (ZeroDivisionError m) = m"
| "str_exn (Exception m) = m"

text \<open>\<^verbatim>\<open>str(n)\<close> of an integer, for the f-strings of the error details.\<close>

fun digits :: "nat \<Rightarrow> string" where
  "digits n = (if n < 10 then [char_of (48 + n)]
               else digits (n div 10) @ [char_of (48 + n mod 10)])"

declare digits.simps [simp del]

definition str_int :: "int \<Rightarrow> string" where
  "str_int i = (if i < 0 then CHR ''-'' # digits (nat (- i)) else digits (nat i))"

text \<open>
  \<^verbatim>\<open>a / b\<close> on a float and an int: raises \<^verbatim>\<open>ZeroDivisionError\<close> when the divisor is zero.
\<close>

definition truediv :: "rat \<Rightarrow> int \<Rightarrow> exn + rat" where
  "truediv a b = (if b = 0 then Inl (ZeroDivisionError ''float division by zero'')
                  else Inr (a / of_int b))"

text \<open>
  \<^verbatim>\<open>round(x, 2)\<close>: the nearest multiple of \<open>1/100\<close>, an exact tie going to the even
  neighbour.
\<close>

definition round_half_even :: "rat \<Rightarrow> int" where
  "round_half_even x =
     (let f = \<lfloor>x\<rfloor>; d = x - of_int f
      in if d < 1 / 2 then f
         else if 1 / 2 < d then f + 1
         else if even f then f else f + 1)"

definition round2 :: "rat \<Rightarrow> rat" where
  "round2 x = of_int (round_half_even (x * 100)) / 100"

section \<open>The request models and the store\<close>

text \<open>
  The pydantic models \<^verbatim>\<open>Mahasiswa\<close>, \<^verbatim>\<open>MataKuliah\<close> and \<^verbatim>\<open>KRS\<close> with the ranges of their
  \<^verbatim>\<open>Field\<close> declarations. The tables \<^verbatim>\<open>mahasiswa\<close> and \<^verbatim>\<open>mata_kuliah\<close> hold rows of the
  same shape as the models; a row of \<^verbatim>\<open>krs\<close> has the generated \<^verbatim>\<open>id_krs\<close> in addition.
\<close>

record Mahasiswa =
  nim :: string
  nama :: string
  jurusan :: string
  angkatan :: int

record MataKuliah =
  kode_mk :: string
  nama_mk :: string
  sks :: int

record KRS =
  krs_nim :: string
  krs_kode_mk :: string
  krs_nilai :: "string option"
  krs_semester :: int

definition Mahasiswa_valid :: "Mahasiswa \<Rightarrow> bool" where
  "Mahasiswa_valid m \<longleftrightarrow> 2000 \<le> angkatan m \<and> angkatan m \<le> 2100"

definition MataKuliah_valid :: "MataKuliah \<Rightarrow> bool" where
  "MataKuliah_valid c \<longleftrightarrow> 1 \<le> sks c \<and> sks c \<le> 6"

definition KRS_valid :: "KRS \<Rightarrow> bool" where
  "KRS_valid k \<longleftrightarrow> 1 \<le> krs_semester k \<and> krs_semester k \<le> 14"

record krs_row =
  id_krs :: int
  k_nim :: string
  k_kode_mk :: string
  k_nilai :: "string option"
  k_semester :: int

text \<open>
  Modelled from the spec: the schema of the store, which is not part of the source file. The
  tables are the ones the handlers' SQL names, with the columns it reads, and a table is the
  list of its rows. \<^verbatim>\<open>bobot_nilai\<close> is the grade weight table (\<^verbatim>\<open>nilai\<close>, \<^verbatim>\<open>bobot\<close>),
  reference data that no handler writes: its content is a parameter of every theorem. The
  identifier of an enrollment is generated sequentially: \<open>krs_id_seq\<close> is the next value of
  the sequence behind \<^verbatim>\<open>id_krs\<close>. Constraints that the schema may declare on its columns are
  not modelled; the connection to the store is taken to succeed.
\<close>

record db =
  mahasiswa :: "Mahasiswa list"
  mata_kuliah :: "MataKuliah list"
  krs :: "krs_row list"
  bobot_nilai :: "(string \<times> rat) list"
  krs_id_seq :: int

text \<open>
  \<^verbatim>\<open>get_db_connection\<close>: the body runs on the connection; when it returns, the transaction
  commits; when it raises, the transaction is rolled back and the exception is raised again.
\<close>

definition get_db_connection :: "(db \<Rightarrow> (exn + 'a) \<times> db) \<Rightarrow> db \<Rightarrow> (exn + 'a) \<times> db" where
  "get_db_connection body conn =
     (case body conn of
        (Inr r, conn') \<Rightarrow> (Inr r, conn')
      | (Inl e, conn') \<Rightarrow> (Inl e, conn))"

text \<open>
  The handlers' \<^verbatim>\<open>except HTTPException: raise\<close> / \<^verbatim>\<open>except Exception as e: raise
  HTTPException(500, str(e))\<close>.
\<close>

fun reraise :: "exn + 'a \<Rightarrow> exn + 'a" where
  "reraise (Inr r) = Inr r"
| "reraise (Inl (HTTPException c d)) = Inl (HTTPException c d)"
| "reraise (Inl e) = Inl (HTTPException 500 (str_exn e))"

section \<open>The admission gate\<close>

text \<open>
  The authority is outside the program: what the \<^verbatim>\<open>POST\<close> to \<^verbatim>\<open>/api/auth/verify\<close> does
  for a given \<^verbatim>\<open>Authorization\<close> header is a parameter. It raises a \<^verbatim>\<open>httpx.RequestError\<close>
  (no connection, or the 5 second timeout), raises something else, or answers with a status
  code and a body; \<^verbatim>\<open>response.json()\<close> on the body raises or gives a JSON value.
\<close>

datatype auth_reply =
    RaisesRequestError string
  | RaisesOther string
  | Response int "string + json"

text \<open>Python truthiness of a JSON value (\<^verbatim>\<open>JNull\<close> is \<^verbatim>\<open>None\<close>).\<close>

fun truthy :: "json \<Rightarrow> bool" where
  "truthy JNull = False"
| "truthy (JBool b) = b"
| "truthy (JNum n) = (n \<noteq> 0)"
| "truthy (JStr s) = (s \<noteq> [])"
| "truthy (JArr xs) = (xs \<noteq> [])"
| "truthy (JObj kvs) = (kvs \<noteq> [])"

fun type_name :: "json \<Rightarrow> string" where
  "type_name JNull = ''NoneType''"
| "type_name (JBool b) = ''bool''"
| "type_name (JNum n) = ''int''"
| "type_name (JStr s) = ''str''"
| "type_name (JArr xs) = ''list''"
| "type_name (JObj kvs) = ''dict''"

text \<open>\<^verbatim>\<open>v.get(key)\<close>: \<^verbatim>\<open>None\<close> for a missing key, \<^verbatim>\<open>AttributeError\<close> when \<open>v\<close> is no dict.\<close>

fun py_get :: "json \<Rightarrow> string \<Rightarrow> exn + json" where
  "py_get (JObj kvs) key = Inr (case map_of kvs key of None \<Rightarrow> JNull | Some v \<Rightarrow> v)"
| "py_get v key =
     Inl (Exception ([CHR 0x27] @ type_name v @ [CHR 0x27] @ '' object has no attribute ''
                     @ [CHR 0x27] @ ''get'' @ [CHR 0x27]))"

text \<open>
  The body of the \<^verbatim>\<open>try\<close> in \<^verbatim>\<open>verify_admin\<close>, after the request has been sent: every
  exception it can raise, before the \<^verbatim>\<open>except\<close> clauses.
\<close>

definition verify_admin_try :: "auth_reply \<Rightarrow> exn + json" where
  "verify_admin_try reply =
     (case reply of
        RaisesRequestError m \<Rightarrow> Inl (RequestError m)
      | RaisesOther m \<Rightarrow> Inl (Exception m)
      | Response status_code body \<Rightarrow>
          if status_code \<noteq> 200 then Inl (HTTPException 401 ''Invalid token'')
          else (case body of
                  Inl m \<Rightarrow> Inl (Exception m)
                | Inr data \<Rightarrow>
                    (case py_get data ''user'' of
                       Inl e \<Rightarrow> Inl e
                     | Inr user \<Rightarrow>
                         if \<not> truthy user
                         then Inl (HTTPException 403 ''Access denied. Admin only.'')
                         else (case py_get user ''role'' of
                                 Inl e \<Rightarrow> Inl e
                               | Inr role \<Rightarrow>
                                   if role \<noteq> JStr ''admin''
                                   then Inl (HTTPException 403 ''Access denied. Admin only.'')
                                   else Inr user))))"

definition verify_admin :: "(string \<Rightarrow> auth_reply) \<Rightarrow> string option \<Rightarrow> exn + json" where
  "verify_admin authority authorization =
     (case authorization of
        None \<Rightarrow> Inl (HTTPException 401 ''No authorization header'')
      | Some a \<Rightarrow>
          if a = [] then Inl (HTTPException 401 ''No authorization header'')
          else (case verify_admin_try (authority a) of
                  Inl (RequestError m) \<Rightarrow> Inl (HTTPException 503 ''Auth service unavailable'')
                | Inl (HTTPException c d) \<Rightarrow> Inl (HTTPException c d)
                | Inl e \<Rightarrow> Inl (HTTPException 401 (str_exn e))
                | Inr user \<Rightarrow> Inr user))"

section \<open>Creating records\<close>

record 'a created =
  message :: string
  data :: 'a
  created_by :: json

text \<open>
  \<^verbatim>\<open>create_mahasiswa\<close> and \<^verbatim>\<open>create_mata_kuliah\<close>: the identifier is looked up, and the
  row is inserted when there is none with it.
\<close>

definition create_mahasiswa_body :: "Mahasiswa \<Rightarrow> json \<Rightarrow> db \<Rightarrow> (exn + Mahasiswa created) \<times> db" where
  "create_mahasiswa_body m admin conn =
     (if find (\<lambda>r. nim r = nim m) (mahasiswa conn) \<noteq> None
      then (Inl (HTTPException 400 ''NIM sudah terdaftar''), conn)
      else
        (let row = \<lparr>nim = nim m, nama = nama m, jurusan = jurusan m, angkatan = angkatan m\<rparr>;
             conn' = conn\<lparr>mahasiswa := mahasiswa conn @ [row]\<rparr>
         in case py_get admin ''username'' of
              Inl e \<Rightarrow> (Inl e, conn')
            | Inr username \<Rightarrow>
                (Inr \<lparr>message = ''Mahasiswa berhasil ditambahkan'', data = row,
                      created_by = username\<rparr>, conn')))"

definition create_mahasiswa :: "Mahasiswa \<Rightarrow> json \<Rightarrow> db \<Rightarrow> (exn + Mahasiswa created) \<times> db" where
  "create_mahasiswa m admin conn =
     (case get_db_connection (create_mahasiswa_body m admin) conn of
        (r, conn') \<Rightarrow> (reraise r, conn'))"

definition create_mata_kuliah_body ::
  "MataKuliah \<Rightarrow> json \<Rightarrow> db \<Rightarrow> (exn + MataKuliah created) \<times> db" where
  "create_mata_kuliah_body c admin conn =
     (if find (\<lambda>r. kode_mk r = kode_mk c) (mata_kuliah conn) \<noteq> None
      then (Inl (HTTPException 400 ''Kode mata kuliah sudah ada''), conn)
      else
        (let row = \<lparr>kode_mk = kode_mk c, nama_mk = nama_mk c, sks = sks c\<rparr>;
             conn' = conn\<lparr>mata_kuliah := mata_kuliah conn @ [row]\<rparr>
         in case py_get admin ''username'' of
              Inl e \<Rightarrow> (Inl e, conn')
            | Inr username \<Rightarrow>
                (Inr \<lparr>message = ''Mata kuliah berhasil ditambahkan'', data = row,
                      created_by = username\<rparr>, conn')))"

definition create_mata_kuliah ::
  "MataKuliah \<Rightarrow> json \<Rightarrow> db \<Rightarrow> (exn + MataKuliah created) \<times> db" where
  "create_mata_kuliah c admin conn =
     (case get_db_connection (create_mata_kuliah_body c admin) conn of
        (r, conn') \<Rightarrow> (reraise r, conn'))"

text \<open>
  \<^verbatim>\<open>create_nilai\<close>: the three \<^verbatim>\<open>SELECT\<close> checks in the source's order, then the
  \<^verbatim>\<open>INSERT ... RETURNING\<close>. The inserted \<^verbatim>\<open>nilai\<close> is the request's, as it is.
  In all three handlers the response is built after the insert, inside the transaction:
  \<^verbatim>\<open>admin.get('username')\<close> on an \<open>admin\<close> that is no dict raises, and the insert is rolled
  back (the gate only ever returns a dict).
\<close>

definition create_nilai_body :: "KRS \<Rightarrow> json \<Rightarrow> db \<Rightarrow> (exn + krs_row created) \<times> db" where
  "create_nilai_body k admin conn =
     (if find (\<lambda>r. nim r = krs_nim k) (mahasiswa conn) = None
      then (Inl (HTTPException 404 ''Mahasiswa tidak ditemukan''), conn)
      else if find (\<lambda>r. kode_mk r = krs_kode_mk k) (mata_kuliah conn) = None
      then (Inl (HTTPException 404 ''Mata kuliah tidak ditemukan''), conn)
      else if find (\<lambda>r. k_nim r = krs_nim k \<and> k_kode_mk r = krs_kode_mk k
                          \<and> k_semester r = krs_semester k) (krs conn) \<noteq> None
      then (Inl (HTTPException 400
                  ''Mahasiswa sudah mengambil mata kuliah ini di semester yang sama''), conn)
      else
        (let row = \<lparr>id_krs = krs_id_seq conn, k_nim = krs_nim k, k_kode_mk = krs_kode_mk k,
                    k_nilai = krs_nilai k, k_semester = krs_semester k\<rparr>;
             conn' = conn\<lparr>krs := krs conn @ [row], krs_id_seq := krs_id_seq conn + 1\<rparr>
         in case py_get admin ''username'' of
              Inl e \<Rightarrow> (Inl e, conn')
            | Inr username \<Rightarrow>
                (Inr \<lparr>message = ''Nilai/KRS berhasil ditambahkan'', data = row,
                      created_by = username\<rparr>, conn')))"

definition create_nilai :: "KRS \<Rightarrow> json \<Rightarrow> db \<Rightarrow> (exn + krs_row created) \<times> db" where
  "create_nilai k admin conn =
     (case get_db_connection (create_nilai_body k admin) conn of
        (r, conn') \<Rightarrow> (reraise r, conn'))"

text \<open>
  The three \<^verbatim>\<open>POST\<close> routes. \<^verbatim>\<open>Depends(verify_admin)\<close> runs before the handler and before
  the body's fields are validated; an exception of the dependency ends the request. A body
  outside the declared ranges is rejected by the framework (422), and the handler is not
  called.
\<close>

definition post_mahasiswa ::
  "(string \<Rightarrow> auth_reply) \<Rightarrow> string option \<Rightarrow> Mahasiswa \<Rightarrow> db \<Rightarrow> (exn + Mahasiswa created) \<times> db" where
  "post_mahasiswa authority authorization m conn =
     (case verify_admin authority authorization of
        Inl e \<Rightarrow> (Inl e, conn)
      | Inr admin \<Rightarrow>
          if \<not> Mahasiswa_valid m then (Inl RequestValidationError, conn)
          else create_mahasiswa m admin conn)"

definition post_mata_kuliah ::
  "(string \<Rightarrow> auth_reply) \<Rightarrow> string option \<Rightarrow> MataKuliah \<Rightarrow> db \<Rightarrow> (exn + MataKuliah created) \<times> db" where
  "post_mata_kuliah authority authorization c conn =
     (case verify_admin authority authorization of
        Inl e \<Rightarrow> (Inl e, conn)
      | Inr admin \<Rightarrow>
          if \<not> MataKuliah_valid c then (Inl RequestValidationError, conn)
          else create_mata_kuliah c admin conn)"

definition post_nilai ::
  "(string \<Rightarrow> auth_reply) \<Rightarrow> string option \<Rightarrow> KRS \<Rightarrow> db \<Rightarrow> (exn + krs_row created) \<times> db" where
  "post_nilai authority authorization k conn =
     (case verify_admin authority authorization of
        Inl e \<Rightarrow> (Inl e, conn)
      | Inr admin \<Rightarrow>
          if \<not> KRS_valid k then (Inl RequestValidationError, conn)
          else create_nilai k admin conn)"

section \<open>The grade-point engine\<close>

text \<open>
  The rows of the two queries, as the tuples the cursor returns. \<^verbatim>\<open>JOIN mata_kuliah\<close> keeps
  one row for every course row with the enrollment's code; \<^verbatim>\<open>LEFT JOIN bobot_nilai\<close> keeps
  one row for every weight row with the enrollment's grade and, when there is none (or the
  grade is \<^verbatim>\<open>NULL\<close>), one row with \<^verbatim>\<open>NULL\<close> as the weight. Without \<^verbatim>\<open>ORDER BY\<close> the rows
  come in table order; \<^verbatim>\<open>ORDER BY k.semester\<close> is a stable sort of them.
\<close>

type_synonym ips_row = "string \<times> string \<times> int \<times> string option \<times> rat option"

type_synonym ipk_row = "int \<times> string \<times> string \<times> int \<times> string option \<times> rat option"

definition left_join_bobot :: "(string \<times> rat) list \<Rightarrow> string option \<Rightarrow> rat option list" where
  "left_join_bobot bn g =
     (case filter (\<lambda>r. Some (fst r) = g) bn of
        [] \<Rightarrow> [None]
      | r # rs \<Rightarrow> map (\<lambda>r. Some (snd r)) (r # rs))"

definition ips_query :: "db \<Rightarrow> string \<Rightarrow> int \<Rightarrow> ips_row list" where
  "ips_query conn n s =
     [(k_kode_mk k, nama_mk mk, sks mk, k_nilai k, b).
        k \<leftarrow> krs conn, k_nim k = n \<and> k_semester k = s,
        mk \<leftarrow> mata_kuliah conn, k_kode_mk k = kode_mk mk,
        b \<leftarrow> left_join_bobot (bobot_nilai conn) (k_nilai k)]"

definition ipk_query :: "db \<Rightarrow> string \<Rightarrow> ipk_row list" where
  "ipk_query conn n =
     sort_key fst
       [(k_semester k, k_kode_mk k, nama_mk mk, sks mk, k_nilai k, b).
          k \<leftarrow> krs conn, k_nim k = n,
          mk \<leftarrow> mata_kuliah conn, k_kode_mk k = kode_mk mk,
          b \<leftarrow> left_join_bobot (bobot_nilai conn) (k_nilai k)]"

text \<open>\<^verbatim>\<open>float(row[4]) if row[4] else 0.0\<close>: \<^verbatim>\<open>None\<close> and a zero decimal are both falsy.\<close>

definition bobot_float :: "rat option \<Rightarrow> rat" where
  "bobot_float b = (case b of None \<Rightarrow> 0 | Some d \<Rightarrow> if d = 0 then 0 else d)"

record mk_item =
  i_kode_mk :: string
  i_nama_mk :: string
  i_sks :: int
  i_nilai :: "string option"
  i_bobot :: rat
  i_mutu :: rat

record ips_report =
  ips_nim :: string
  ips_nama :: string
  ips_semester :: int
  ips_mata_kuliah :: "mk_item list"
  ips_total_sks :: int
  ips_total_mutu :: rat
  ips :: rat

text \<open>The \<^verbatim>\<open>for row in rows\<close> loop of \<^verbatim>\<open>hitung_ips\<close> on its three accumulators.\<close>

fun ips_loop :: "ips_row list \<Rightarrow> rat \<times> int \<times> mk_item list \<Rightarrow> rat \<times> int \<times> mk_item list" where
  "ips_loop [] acc = acc"
| "ips_loop ((kode, nm, sk, nl, b) # rows) (total_mutu, total_sks, mata_kuliah_list) =
     (let bobot = bobot_float b;
          mutu = bobot * of_int sk
      in ips_loop rows
           (total_mutu + mutu, total_sks + sk,
            mata_kuliah_list @ [\<lparr>i_kode_mk = kode, i_nama_mk = nm, i_sks = sk, i_nilai = nl,
                                  i_bobot = bobot, i_mutu = mutu\<rparr>]))"

text \<open>\<^verbatim>\<open>total_mutu / total_sks if total_sks > 0 else 0.0\<close>.\<close>

definition guarded_div :: "rat \<Rightarrow> int \<Rightarrow> exn + rat" where
  "guarded_div total_mutu total_sks =
     (if total_sks > 0 then truediv total_mutu total_sks else Inr 0)"

definition hitung_ips_body :: "string \<Rightarrow> int \<Rightarrow> db \<Rightarrow> exn + ips_report" where
  "hitung_ips_body n s conn =
     (case find (\<lambda>r. nim r = n) (mahasiswa conn) of
        None \<Rightarrow> Inl (HTTPException 404 ''Mahasiswa tidak ditemukan'')
      | Some mhs \<Rightarrow>
          (let rows = ips_query conn n s
           in if rows = []
              then Inl (HTTPException 404
                         (''Tidak ada data nilai untuk mahasiswa '' @ n @ '' di semester ''
                          @ str_int s))
              else
                (case ips_loop rows (0, 0, []) of
                   (total_mutu, total_sks, mata_kuliah_list) \<Rightarrow>
                     (case guarded_div total_mutu total_sks of
                        Inl e \<Rightarrow> Inl e
                      | Inr ips_val \<Rightarrow>
                          Inr \<lparr>ips_nim = n, ips_nama = nama mhs, ips_semester = s,
                               ips_mata_kuliah = mata_kuliah_list,
                               ips_total_sks = total_sks,
                               ips_total_mutu = round2 total_mutu,
                               ips = round2 ips_val\<rparr>))))"

text \<open>
  The handler \<^verbatim>\<open>hitung_ips\<close> (it only reads, so the store is not returned), and the route
  \<^verbatim>\<open>GET /api/acad/ips/{nim}\<close> with the declared \<^verbatim>\<open>Query(..., ge=1)\<close> on \<^verbatim>\<open>semester\<close>: the
  framework rejects a smaller value and does not call the handler.
\<close>

definition hitung_ips :: "string \<Rightarrow> int \<Rightarrow> db \<Rightarrow> exn + ips_report" where
  "hitung_ips n s conn = reraise (hitung_ips_body n s conn)"

definition get_ips :: "string \<Rightarrow> int \<Rightarrow> db \<Rightarrow> exn + ips_report" where
  "get_ips n s conn = (if s \<ge> 1 then hitung_ips n s conn else Inl RequestValidationError)"

record sem_entry =
  s_semester :: int
  s_total_sks :: int
  s_total_mutu :: rat
  s_ips :: rat

record ipk_report =
  ipk_nim :: string
  ipk_nama :: string
  ipk_jurusan :: string
  ipk_angkatan :: int
  total_sks_kumulatif :: int
  total_mutu_kumulatif :: rat
  ipk :: rat
  detail_per_semester :: "sem_entry list"

text \<open>
  The first loop of \<^verbatim>\<open>hitung_ipk\<close> (\<open>mutu_kum\<close> and \<open>sks_kum\<close> are the source's
  \<^verbatim>\<open>total_mutu_kumulatif\<close> and \<^verbatim>\<open>total_sks_kumulatif\<close>). The dict \<^verbatim>\<open>per_semester\<close> is an association list in
  insertion order: a new key goes to the end, an update stays in place.
\<close>

fun ipk_loop ::
  "ipk_row list \<Rightarrow> rat \<times> int \<times> (int \<times> sem_entry) list \<Rightarrow> rat \<times> int \<times> (int \<times> sem_entry) list" where
  "ipk_loop [] acc = acc"
| "ipk_loop ((sem, kode, nm, sk, nl, b) # rows)
            (mutu_kum, sks_kum, per_semester) =
     (let bobot = bobot_float b;
          mutu = bobot * of_int sk;
          per1 = (if map_of per_semester sem = None
                  then AList.update sem \<lparr>s_semester = sem, s_total_sks = 0, s_total_mutu = 0,
                                          s_ips = 0\<rparr> per_semester
                  else per_semester);
          per2 = AList.map_entry sem (\<lambda>e. e\<lparr>s_total_sks := s_total_sks e + sk\<rparr>) per1;
          per3 = AList.map_entry sem (\<lambda>e. e\<lparr>s_total_mutu := s_total_mutu e + mutu\<rparr>) per2
      in ipk_loop rows (mutu_kum + mutu, sks_kum + sk, per3))"

text \<open>
  The second loop: for every key, \<^verbatim>\<open>ips\<close> is computed from the entry's totals as they are
  at that moment, and only then \<^verbatim>\<open>total_mutu\<close> is overwritten by its rounding.
\<close>

fun ips_per_semester :: "(int \<times> sem_entry) list \<Rightarrow> exn + (int \<times> sem_entry) list" where
  "ips_per_semester [] = Inr []"
| "ips_per_semester ((sem, e) # per) =
     (let total_sks = s_total_sks e;
          total_mutu = s_total_mutu e
      in case guarded_div total_mutu total_sks of
           Inl x \<Rightarrow> Inl x
         | Inr q \<Rightarrow>
             (case ips_per_semester per of
                Inl x \<Rightarrow> Inl x
              | Inr per' \<Rightarrow>
                  Inr ((sem, e\<lparr>s_ips := round2 q, s_total_mutu := round2 total_mutu\<rparr>) # per')))"

definition hitung_ipk_body :: "string \<Rightarrow> db \<Rightarrow> exn + ipk_report" where
  "hitung_ipk_body n conn =
     (case find (\<lambda>r. nim r = n) (mahasiswa conn) of
        None \<Rightarrow> Inl (HTTPException 404 ''Mahasiswa tidak ditemukan'')
      | Some mhs \<Rightarrow>
          (let rows = ipk_query conn n
           in if rows = []
              then Inl (HTTPException 404 (''Tidak ada data nilai untuk mahasiswa '' @ n))
              else
                (case ipk_loop rows (0, 0, []) of
                   (mutu_kum, sks_kum, per_semester) \<Rightarrow>
                     (case ips_per_semester per_semester of
                        Inl e \<Rightarrow> Inl e
                      | Inr per_semester' \<Rightarrow>
                          (case guarded_div mutu_kum sks_kum of
                             Inl e \<Rightarrow> Inl e
                           | Inr ipk_val \<Rightarrow>
                               Inr \<lparr>ipk_nim = n, ipk_nama = nama mhs,
                                    ipk_jurusan = jurusan mhs, ipk_angkatan = angkatan mhs,
                                    total_sks_kumulatif = sks_kum,
                                    total_mutu_kumulatif = round2 mutu_kum,
                                    ipk = round2 ipk_val,
                                    detail_per_semester =
                                      sort_key s_semester (map snd per_semester')\<rparr>)))))"

definition hitung_ipk :: "string \<Rightarrow> db \<Rightarrow> exn + ipk_report" where
  "hitung_ipk n conn = reraise (hitung_ipk_body n conn)"

section \<open>The data model's invariants and the quantities of the specification\<close>

text \<open>
  Modelled from the spec: the invariants of its data model. Identifiers are unique, the
  weight table is a mapping, credit weights are within 1..6, weights within 0..4, every
  enrollment refers to a student and a course of the store, its term is within 1..14, and no
  two enrollments share (student, course, term). The POST routes keep them
  (\<open>reachable_wf\<close> below).
\<close>

definition wf_db :: "db \<Rightarrow> bool" where
  "wf_db d \<longleftrightarrow>
     distinct (map nim (mahasiswa d)) \<and>
     distinct (map kode_mk (mata_kuliah d)) \<and>
     distinct (map fst (bobot_nilai d)) \<and>
     (\<forall>c \<in> set (mata_kuliah d). 1 \<le> sks c \<and> sks c \<le> 6) \<and>
     (\<forall>b \<in> set (bobot_nilai d). 0 \<le> snd b \<and> snd b \<le> 4) \<and>
     (\<forall>k \<in> set (krs d). k_nim k \<in> nim ` set (mahasiswa d)
                        \<and> k_kode_mk k \<in> kode_mk ` set (mata_kuliah d)
                        \<and> 1 \<le> k_semester k \<and> k_semester k \<le> 14) \<and>
     distinct (map (\<lambda>k. (k_nim k, k_kode_mk k, k_semester k)) (krs d))"

text \<open>
  The stores that the service produces: it starts from a store that satisfies the invariants
  and has no enrollment yet, and every further store is the result of a request to one of the
  three POST routes (whatever the credential, the authority and the body).
\<close>

inductive reachable :: "db \<Rightarrow> bool" where
  reachable_init: "wf_db d \<Longrightarrow> krs d = [] \<Longrightarrow> reachable d"
| reachable_mahasiswa: "reachable d \<Longrightarrow> reachable (snd (post_mahasiswa authority auth m d))"
| reachable_mata_kuliah: "reachable d \<Longrightarrow> reachable (snd (post_mata_kuliah authority auth c d))"
| reachable_nilai: "reachable d \<Longrightarrow> reachable (snd (post_nilai authority auth k d))"

text \<open>
  Modelled from the spec: its vocabulary, written from its words, for comparison with what
  the handlers compute. The enrollments of a student (in a term), the credit weight of an
  enrollment's course, the weight of a grade (0 when the grade is absent or has no entry in
  the table), the quality points of an enrollment (weight times credit weight), and the
  totals of a list of enrollments.
\<close>

definition spec_enrollments :: "db \<Rightarrow> string \<Rightarrow> krs_row list" where
  "spec_enrollments d n = filter (\<lambda>k. k_nim k = n) (krs d)"

definition spec_term_enrollments :: "db \<Rightarrow> string \<Rightarrow> int \<Rightarrow> krs_row list" where
  "spec_term_enrollments d n s = filter (\<lambda>k. k_semester k = s) (spec_enrollments d n)"

definition spec_credit_weight :: "db \<Rightarrow> krs_row \<Rightarrow> int" where
  "spec_credit_weight d k =
     (case find (\<lambda>c. kode_mk c = k_kode_mk k) (mata_kuliah d) of
        None \<Rightarrow> 0
      | Some c \<Rightarrow> sks c)"

definition spec_weight :: "db \<Rightarrow> string option \<Rightarrow> rat" where
  "spec_weight d g =
     (case g of
        None \<Rightarrow> 0
      | Some l \<Rightarrow> (case map_of (bobot_nilai d) l of None \<Rightarrow> 0 | Some w \<Rightarrow> w))"

definition spec_quality_points :: "db \<Rightarrow> krs_row \<Rightarrow> rat" where
  "spec_quality_points d k = spec_weight d (k_nilai k) * of_int (spec_credit_weight d k)"

definition spec_total_credit :: "db \<Rightarrow> krs_row list \<Rightarrow> int" where
  "spec_total_credit d ks = sum_list (map (spec_credit_weight d) ks)"

definition spec_total_quality :: "db \<Rightarrow> krs_row list \<Rightarrow> rat" where
  "spec_total_quality d ks = sum_list (map (spec_quality_points d) ks)"

text \<open>
  What the handlers produce on a store that satisfies the invariants, in the specification's
  vocabulary: the course name of an enrollment, the weight column that the left join gives
  it, the row of each query for it, the entry of the per-course breakdown, and the entry of
  the per-term breakdown.
\<close>

definition spec_course_name :: "db \<Rightarrow> krs_row \<Rightarrow> string" where
  "spec_course_name d k =
     (case find (\<lambda>c. kode_mk c = k_kode_mk k) (mata_kuliah d) of
        None \<Rightarrow> []
      | Some c \<Rightarrow> nama_mk c)"

definition joined_bobot :: "db \<Rightarrow> krs_row \<Rightarrow> rat option" where
  "joined_bobot d k = (case k_nilai k of None \<Rightarrow> None | Some g \<Rightarrow> map_of (bobot_nilai d) g)"

definition ips_row_of :: "db \<Rightarrow> krs_row \<Rightarrow> ips_row" where
  "ips_row_of d k =
     (k_kode_mk k, spec_course_name d k, spec_credit_weight d k, k_nilai k, joined_bobot d k)"

definition ipk_row_of :: "db \<Rightarrow> krs_row \<Rightarrow> ipk_row" where
  "ipk_row_of d k = (k_semester k, ips_row_of d k)"

definition spec_item :: "db \<Rightarrow> krs_row \<Rightarrow> mk_item" where
  "spec_item d k =
     \<lparr>i_kode_mk = k_kode_mk k, i_nama_mk = spec_course_name d k, i_sks = spec_credit_weight d k,
      i_nilai = k_nilai k, i_bobot = spec_weight d (k_nilai k), i_mutu = spec_quality_points d k\<rparr>"

definition spec_term_entry :: "db \<Rightarrow> string \<Rightarrow> int \<Rightarrow> sem_entry" where
  "spec_term_entry d n s =
     \<lparr>s_semester = s,
      s_total_sks = spec_total_credit d (spec_term_enrollments d n s),
      s_total_mutu = round2 (spec_total_quality d (spec_term_enrollments d n s)),
      s_ips = round2 (spec_total_quality d (spec_term_enrollments d n s)
                      / of_int (spec_total_credit d (spec_term_enrollments d n s)))\<rparr>"

text \<open>
  The columns of a row that the loops read, and what the first loop of \<^verbatim>\<open>hitung_ipk\<close> has
  accumulated for a term after a list of rows.
\<close>

definition ips_row_sks :: "ips_row \<Rightarrow> int" where
  "ips_row_sks r = (case r of (kode, nm, sk, nl, b) \<Rightarrow> sk)"

definition ips_row_mutu :: "ips_row \<Rightarrow> rat" where
  "ips_row_mutu r = (case r of (kode, nm, sk, nl, b) \<Rightarrow> bobot_float b * of_int sk)"

definition ips_row_item :: "ips_row \<Rightarrow> mk_item" where
  "ips_row_item r =
     (case r of (kode, nm, sk, nl, b) \<Rightarrow>
        \<lparr>i_kode_mk = kode, i_nama_mk = nm, i_sks = sk, i_nilai = nl, i_bobot = bobot_float b,
         i_mutu = bobot_float b * of_int sk\<rparr>)"

definition sem_sks :: "ipk_row list \<Rightarrow> int \<Rightarrow> int" where
  "sem_sks rows s = sum_list (map (\<lambda>r. if fst r = s then ips_row_sks (snd r) else 0) rows)"

definition sem_mutu :: "ipk_row list \<Rightarrow> int \<Rightarrow> rat" where
  "sem_mutu rows s = sum_list (map (\<lambda>r. if fst r = s then ips_row_mutu (snd r) else 0) rows)"

definition acc_entry :: "ipk_row list \<Rightarrow> int \<Rightarrow> sem_entry option \<Rightarrow> sem_entry option" where
  "acc_entry rows s eo =
     (case eo of
        Some e \<Rightarrow> Some (e\<lparr>s_total_sks := s_total_sks e + sem_sks rows s,
                           s_total_mutu := s_total_mutu e + sem_mutu rows s\<rparr>)
      | None \<Rightarrow> if s \<in> fst ` set rows
                then Some \<lparr>s_semester = s, s_total_sks = sem_sks rows s,
                           s_total_mutu = sem_mutu rows s, s_ips = 0\<rparr>
                else None)"

text \<open>
  To compare an unrecognized grade with an absent one: the store in which every enrollment
  with the grade \<open>g\<close> has no grade instead, and a semester report without the grades it
  echoes.
\<close>

definition forget_grade :: "string \<Rightarrow> db \<Rightarrow> db" where
  "forget_grade g d =
     d\<lparr>krs := map (\<lambda>k. if k_nilai k = Some g then k\<lparr>k_nilai := None\<rparr> else k) (krs d)\<rparr>"

definition grade_free :: "ips_report \<Rightarrow> ips_report" where
  "grade_free rep =
     rep\<lparr>ips_mata_kuliah := map (\<lambda>i. i\<lparr>i_nilai := None\<rparr>) (ips_mata_kuliah rep)\<rparr>"


section \<open>Example stores\<close>

text \<open>
  A student with two graded courses in term 1, weight 4 on 3 credits and weight 3 on 2
  credits, and a student without enrollments.
\<close>

definition student_ani :: Mahasiswa where
  "student_ani = \<lparr>nim = ''M1'', nama = ''Ani'', jurusan = ''TI'', angkatan = 2022\<rparr>"

definition weights_ex :: "(string \<times> rat) list" where
  "weights_ex = [(''A'', 4), (''B'', 3), (''C'', 2), (''D'', 1), (''E'', 0)]"

definition student_budi :: Mahasiswa where
  "student_budi = \<lparr>nim = ''M2'', nama = ''Budi'', jurusan = ''SI'', angkatan = 2023\<rparr>"

definition db_a :: db where
  "db_a = \<lparr>mahasiswa = [student_ani, student_budi],
          mata_kuliah = [\<lparr>kode_mk = ''IF1'', nama_mk = ''Algoritma'', sks = 3\<rparr>,
                         \<lparr>kode_mk = ''IF2'', nama_mk = ''Basis Data'', sks = 2\<rparr>],
          krs = [\<lparr>id_krs = 1, k_nim = ''M1'', k_kode_mk = ''IF1'', k_nilai = Some ''A'',
                   k_semester = 1\<rparr>,
                 \<lparr>id_krs = 2, k_nim = ''M1'', k_kode_mk = ''IF2'', k_nilai = Some ''B'',
                   k_semester = 1\<rparr>],
          bobot_nilai = weights_ex,
          krs_id_seq = 3\<rparr>"

text \<open>Weight 4 on 1 credit and weight 3 on 2 credits in term 1: 10 quality points on 3 credits.\<close>

definition db_third :: db where
  "db_third = \<lparr>mahasiswa = [student_ani],
              mata_kuliah = [\<lparr>kode_mk = ''IF1'', nama_mk = ''Algoritma'', sks = 1\<rparr>,
                             \<lparr>kode_mk = ''IF2'', nama_mk = ''Basis Data'', sks = 2\<rparr>],
              krs = [\<lparr>id_krs = 1, k_nim = ''M1'', k_kode_mk = ''IF1'', k_nilai = Some ''A'',
                       k_semester = 1\<rparr>,
                     \<lparr>id_krs = 2, k_nim = ''M1'', k_kode_mk = ''IF2'', k_nilai = Some ''B'',
                       k_semester = 1\<rparr>],
              bobot_nilai = weights_ex,
              krs_id_seq = 3\<rparr>"

text \<open>Term 1: 3 credits at weight 4. Term 2: 1 credit at weight 2.\<close>

definition db_terms :: db where
  "db_terms = \<lparr>mahasiswa = [student_ani],
              mata_kuliah = [\<lparr>kode_mk = ''IF1'', nama_mk = ''Algoritma'', sks = 3\<rparr>,
                             \<lparr>kode_mk = ''IF3'', nama_mk = ''Etika'', sks = 1\<rparr>],
              krs = [\<lparr>id_krs = 1, k_nim = ''M1'', k_kode_mk = ''IF1'', k_nilai = Some ''A'',
                       k_semester = 1\<rparr>,
                     \<lparr>id_krs = 2, k_nim = ''M1'', k_kode_mk = ''IF3'', k_nilai = Some ''C'',
                       k_semester = 2\<rparr>],
              bobot_nilai = weights_ex,
              krs_id_seq = 3\<rparr>"

text \<open>A store whose only course has credit weight 0 (no create request can produce it).\<close>

definition db_zero :: db where
  "db_zero = \<lparr>mahasiswa = [student_ani],
             mata_kuliah = [\<lparr>kode_mk = ''IF0'', nama_mk = ''Seminar'', sks = 0\<rparr>],
             krs = [\<lparr>id_krs = 1, k_nim = ''M1'', k_kode_mk = ''IF0'', k_nilai = Some ''A'',
                      k_semester = 1\<rparr>],
             bobot_nilai = weights_ex,
             krs_id_seq = 2\<rparr>"

text \<open>
  An authority: one admin credential, one student credential, one credential on which the
  authority does not answer in time, and every other credential rejected.
\<close>

definition admin_ex :: json where
  "admin_ex = JObj [(''username'', JStr ''root''), (''role'', JStr ''admin'')]"

definition authority_ex :: "string \<Rightarrow> auth_reply" where
  "authority_ex a =
     (if a = ''Bearer admin'' then Response 200 (Inr (JObj [(''user'', admin_ex)]))
      else if a = ''Bearer student''
      then Response 200 (Inr (JObj [(''user'', JObj [(''username'', JStr ''ani''),
                                                      (''role'', JStr ''student'')])]))
      else if a = ''Bearer slow'' then RaisesRequestError ''timed out''
      else Response 401 (Inr (JObj [(''error'', JStr ''invalid token'')])))"

text \<open>Four create-Enrollment requests against \<open>db_a\<close>.\<close>

definition krs_unknown_student :: KRS where
  "krs_unknown_student = \<lparr>krs_nim = ''M9'', krs_kode_mk = ''IF1'', krs_nilai = Some ''A'',
                           krs_semester = 2\<rparr>"

definition krs_unknown_course :: KRS where
  "krs_unknown_course = \<lparr>krs_nim = ''M1'', krs_kode_mk = ''IF9'', krs_nilai = Some ''A'',
                          krs_semester = 2\<rparr>"

definition krs_duplicate :: KRS where
  "krs_duplicate = \<lparr>krs_nim = ''M1'', krs_kode_mk = ''IF1'', krs_nilai = Some ''C'',
                     krs_semester = 1\<rparr>"

definition krs_new :: KRS where
  "krs_new = \<lparr>krs_nim = ''M1'', krs_kode_mk = ''IF1'', krs_nilai = None, krs_semester = 2\<rparr>"

text \<open>
  \<open>db_a\<close> before its two enrollments were created, and the two requests that created
  them; a request with a grade that is no entry of the weight table; a student with a graded,
  an ungraded and an unrecognizably graded course in one term.
\<close>

definition db_start :: db where
  "db_start = db_a\<lparr>krs := [], krs_id_seq := 1\<rparr>"

definition db_ungraded :: db where
  "db_ungraded = \<lparr>mahasiswa = [student_ani],
                 mata_kuliah = [\<lparr>kode_mk = ''IF1'', nama_mk = ''Algoritma'', sks = 3\<rparr>,
                                \<lparr>kode_mk = ''IF2'', nama_mk = ''Basis Data'', sks = 2\<rparr>,
                                \<lparr>kode_mk = ''IF3'', nama_mk = ''Etika'', sks = 1\<rparr>],
                 krs = [\<lparr>id_krs = 1, k_nim = ''M1'', k_kode_mk = ''IF1'', k_nilai = Some ''A'',
                          k_semester = 1\<rparr>,
                        \<lparr>id_krs = 2, k_nim = ''M1'', k_kode_mk = ''IF2'', k_nilai = None,
                          k_semester = 1\<rparr>,
                        \<lparr>id_krs = 3, k_nim = ''M1'', k_kode_mk = ''IF3'', k_nilai = Some ''X'',
                          k_semester = 1\<rparr>],
                 bobot_nilai = weights_ex,
                 krs_id_seq = 4\<rparr>"

definition krs_odd_grade :: KRS where
  "krs_odd_grade = \<lparr>krs_nim = ''M2'', krs_kode_mk = ''IF1'', krs_nilai = Some ''not a grade'',
                     krs_semester = 14\<rparr>"

definition krs_first :: KRS where
  "krs_first = \<lparr>krs_nim = ''M1'', krs_kode_mk = ''IF1'', krs_nilai = Some ''A'',
                 krs_semester = 1\<rparr>"

definition krs_second :: KRS where
  "krs_second = \<lparr>krs_nim = ''M1'', krs_kode_mk = ''IF2'', krs_nilai = Some ''B'',
                  krs_semester = 1\<rparr>"




section \<open>Basic facts about the handlers\<close>

lemma find_None_image: "(find (\<lambda>r. f r = v) xs = None) \<longleftrightarrow> v \<notin> f ` set xs"
  by (auto simp: find_None_iff)

lemma find_triple_None:
  "(find (\<lambda>r. k_nim r = a \<and> k_kode_mk r = b \<and> k_semester r = c) xs = None)
     \<longleftrightarrow> (a, b, c) \<notin> (\<lambda>r. (k_nim r, k_kode_mk r, k_semester r)) ` set xs"
  by (auto simp: find_None_iff)

lemma reraise_Inr_iff: "reraise x = Inr r \<longleftrightarrow> x = Inr r"
  by (cases x rule: reraise.cases) simp_all

lemma guarded_div_total: "guarded_div m t = Inr (if 0 < t then m / of_int t else 0)"
  by (simp add: guarded_div_def truediv_def)

lemma round2_zero: "round2 0 = 0"
  by (simp add: round2_def round_half_even_def)

lemma ips_per_semester_map:
  "ips_per_semester per =
     Inr (map (\<lambda>(sem, e). (sem, e\<lparr>s_ips := round2 (if 0 < s_total_sks e
                                                   then s_total_mutu e / of_int (s_total_sks e)
                                                   else 0),
                                   s_total_mutu := round2 (s_total_mutu e)\<rparr>)) per)"
  by (induction per) (auto simp: guarded_div_total Let_def)

text \<open>The only exceptions of the two read handlers are their own 404s.\<close>

lemma hitung_ips_body_cases:
  "hitung_ips_body n s conn = Inl e \<Longrightarrow> \<exists>d. e = HTTPException 404 d"
  by (auto simp: hitung_ips_body_def Let_def guarded_div_total
           split: option.splits prod.splits if_splits)

lemma hitung_ipk_body_cases:
  "hitung_ipk_body n conn = Inl e \<Longrightarrow> \<exists>d. e = HTTPException 404 d"
  by (auto simp: hitung_ipk_body_def Let_def guarded_div_total ips_per_semester_map
           split: option.splits prod.splits if_splits)

lemma hitung_ips_eq_body: "hitung_ips n s conn = hitung_ips_body n s conn"
proof (cases "hitung_ips_body n s conn")
  case (Inl e)
  then show ?thesis
    using hitung_ips_body_cases[OF Inl] by (auto simp: hitung_ips_def)
next
  case (Inr r)
  then show ?thesis by (simp add: hitung_ips_def)
qed

lemma hitung_ipk_eq_body: "hitung_ipk n conn = hitung_ipk_body n conn"
proof (cases "hitung_ipk_body n conn")
  case (Inl e)
  then show ?thesis
    using hitung_ipk_body_cases[OF Inl] by (auto simp: hitung_ipk_def)
next
  case (Inr r)
  then show ?thesis by (simp add: hitung_ipk_def)
qed

lemma create_mahasiswa_failure:
  "fst (create_mahasiswa m admin conn) = Inl e \<Longrightarrow> snd (create_mahasiswa m admin conn) = conn"
  by (auto simp: create_mahasiswa_def get_db_connection_def split: prod.splits sum.splits)

lemma create_mata_kuliah_failure:
  "fst (create_mata_kuliah c admin conn) = Inl e \<Longrightarrow> snd (create_mata_kuliah c admin conn) = conn"
  by (auto simp: create_mata_kuliah_def get_db_connection_def split: prod.splits sum.splits)

lemma create_nilai_failure:
  "fst (create_nilai k admin conn) = Inl e \<Longrightarrow> snd (create_nilai k admin conn) = conn"
  by (auto simp: create_nilai_def get_db_connection_def split: prod.splits sum.splits)

lemma verify_admin_try_Inr:
  "verify_admin_try reply = Inr user \<Longrightarrow>
     \<exists>d. reply = Response 200 (Inr (JObj d)) \<and> py_get (JObj d) ''user'' = Inr user
          \<and> truthy user \<and> py_get user ''role'' = Inr (JStr ''admin'')"
  apply (cases reply)
    apply (simp_all add: verify_admin_try_def split: if_splits sum.splits)
  subgoal for code body data
    by (cases data) (auto split: option.splits if_splits)
  done

lemma verify_admin_Inr:
  "verify_admin authority authorization = Inr user \<Longrightarrow>
     \<exists>a d. authorization = Some a \<and> a \<noteq> [] \<and> authority a = Response 200 (Inr (JObj d))
          \<and> py_get (JObj d) ''user'' = Inr user \<and> truthy user
          \<and> py_get user ''role'' = Inr (JStr ''admin'')"
  by (auto simp: verify_admin_def split: option.splits if_splits sum.splits exn.splits
           dest!: verify_admin_try_Inr)

section \<open>The queries on a store that satisfies the invariants\<close>

lemma filter_key_distinct:
  "distinct (map fst bn) \<Longrightarrow>
     filter (\<lambda>r. fst r = l) bn = (case map_of bn l of None \<Rightarrow> [] | Some w \<Rightarrow> [(l, w)])"
proof (induction bn)
  case Nil
  then show ?case by simp
next
  case (Cons r bn)
  then show ?case
    by (cases r) (auto split: option.splits simp: map_of_eq_None_iff[symmetric] filter_empty_conv
                  dest: map_of_SomeD intro: rev_image_eqI)
qed

lemma left_join_bobot_distinct:
  "distinct (map fst bn) \<Longrightarrow>
     left_join_bobot bn g = [case g of None \<Rightarrow> None | Some l \<Rightarrow> map_of bn l]"
proof (cases g)
  case None
  then show ?thesis by (simp add: left_join_bobot_def)
next
  case (Some l)
  assume "distinct (map fst bn)"
  from filter_key_distinct[OF this, of l]
  have "filter (\<lambda>r. Some (fst r) = Some l) bn = (case map_of bn l of None \<Rightarrow> [] | Some w \<Rightarrow> [(l, w)])"
    by simp
  then show ?thesis using Some
    by (simp add: left_join_bobot_def split: option.splits)
qed

lemma join_course_distinct:
  "distinct (map kode_mk cs) \<Longrightarrow>
     concat (map (\<lambda>mk. if code = kode_mk mk then F mk else []) cs)
       = (case find (\<lambda>c. kode_mk c = code) cs of None \<Rightarrow> [] | Some c \<Rightarrow> F c)"
proof (induction cs)
  case Nil
  then show ?case by simp
next
  case (Cons c cs)
  have none: "kode_mk c \<notin> kode_mk ` set cs \<Longrightarrow> concat (map (\<lambda>mk. if kode_mk c = kode_mk mk then F mk else []) cs) = []"
    by (induction cs) auto
  from Cons show ?case
    by (auto simp: none)
qed

lemma find_course_Some:
  "code \<in> kode_mk ` set cs \<Longrightarrow> \<exists>c. find (\<lambda>c. kode_mk c = code) cs = Some c"
  by (cases "find (\<lambda>c. kode_mk c = code) cs") (auto simp: find_None_iff)

lemma joined_row:
  assumes "wf_db d" and "k \<in> set (krs d)"
  shows "concat (map (\<lambda>mk. if k_kode_mk k = kode_mk mk
                            then map (\<lambda>b. G (nama_mk mk) (sks mk) b)
                                     (left_join_bobot (bobot_nilai d) (k_nilai k))
                            else []) (mata_kuliah d))
         = [G (spec_course_name d k) (spec_credit_weight d k) (joined_bobot d k)]"
proof -
  from assms have dc: "distinct (map kode_mk (mata_kuliah d))"
    and db: "distinct (map fst (bobot_nilai d))"
    and fk: "k_kode_mk k \<in> kode_mk ` set (mata_kuliah d)"
    by (auto simp: wf_db_def)
  from find_course_Some[OF fk] obtain c where c: "find (\<lambda>c. kode_mk c = k_kode_mk k) (mata_kuliah d) = Some c"
    by blast
  show ?thesis
    by (simp add: join_course_distinct[OF dc] c left_join_bobot_distinct[OF db]
                  spec_course_name_def spec_credit_weight_def joined_bobot_def)
qed

lemma query_rows:
  assumes "wf_db d" and "set ks \<subseteq> set (krs d)"
  shows "concat (map (\<lambda>k. if P k
                          then concat (map (\<lambda>mk. if k_kode_mk k = kode_mk mk
                                 then map (\<lambda>b. G k (nama_mk mk) (sks mk) b)
                                          (left_join_bobot (bobot_nilai d) (k_nilai k))
                                 else []) (mata_kuliah d))
                          else []) ks)
         = map (\<lambda>k. G k (spec_course_name d k) (spec_credit_weight d k) (joined_bobot d k))
               (filter P ks)"
  using assms(2)
proof (induction ks)
  case Nil
  then show ?case by simp
next
  case (Cons k ks)
  then have "k \<in> set (krs d)" by simp
  from joined_row[OF assms(1) this, of "G k"] Cons show ?case
    by simp
qed

lemma ips_query_wf:
  assumes "wf_db d"
  shows "ips_query d n s = map (ips_row_of d) (spec_term_enrollments d n s)"
proof -
  have f: "filter (\<lambda>k. k_nim k = n \<and> k_semester k = s) (krs d) = spec_term_enrollments d n s"
    by (simp add: spec_term_enrollments_def spec_enrollments_def conj_commute)
  show ?thesis
    unfolding ips_query_def
    using query_rows[OF assms subset_refl, of "\<lambda>k. k_nim k = n \<and> k_semester k = s"
        "\<lambda>k nm sk b. (k_kode_mk k, nm, sk, k_nilai k, b)"]
    by (simp add: f ips_row_of_def)
qed

lemma ipk_query_wf:
  assumes "wf_db d"
  shows "ipk_query d n = sort_key fst (map (ipk_row_of d) (spec_enrollments d n))"
proof -
  have r: "ipk_row_of d = (\<lambda>k. (k_semester k, k_kode_mk k, spec_course_name d k,
                                  spec_credit_weight d k, k_nilai k, joined_bobot d k))"
    by (simp add: fun_eq_iff ipk_row_of_def ips_row_of_def)
  show ?thesis
    unfolding ipk_query_def r
    using query_rows[OF assms subset_refl, of "\<lambda>k. k_nim k = n"
        "\<lambda>k nm sk b. (k_semester k, k_kode_mk k, nm, sk, k_nilai k, b)"]
    by (simp add: spec_enrollments_def)
qed

lemma bobot_float_joined: "bobot_float (joined_bobot d k) = spec_weight d (k_nilai k)"
  by (simp add: bobot_float_def joined_bobot_def spec_weight_def split: option.splits)

section \<open>The loops\<close>

lemma ips_loop_sums:
  "ips_loop rows (m, t, l) =
     (m + sum_list (map ips_row_mutu rows), t + sum_list (map ips_row_sks rows),
      l @ map ips_row_item rows)"
  by (induction rows arbitrary: m t l)
     (auto simp: ips_row_mutu_def ips_row_sks_def ips_row_item_def Let_def)

lemma ipk_loop_totals:
  "fst (ipk_loop rows (m, t, per)) = m + sum_list (map (\<lambda>r. ips_row_mutu (snd r)) rows)
   \<and> fst (snd (ipk_loop rows (m, t, per))) = t + sum_list (map (\<lambda>r. ips_row_sks (snd r)) rows)"
  by (induction rows arbitrary: m t per)
     (auto simp: ips_row_mutu_def ips_row_sks_def Let_def)

lemma ipk_loop_per:
  "distinct (map fst per) \<Longrightarrow>
     distinct (map fst (snd (snd (ipk_loop rows (m, t, per)))))
     \<and> map_of (snd (snd (ipk_loop rows (m, t, per)))) s = acc_entry rows s (map_of per s)"
proof (induction rows arbitrary: m t per)
  case Nil
  then show ?case by (simp add: acc_entry_def sem_sks_def sem_mutu_def split: option.splits)
next
  case (Cons row rows)
  obtain sem kode nm sk nl b where row: "row = (sem, kode, nm, sk, nl, b)"
    by (cases row) auto
  define mutu where "mutu = bobot_float b * of_int sk"
  define per1 where "per1 = (if map_of per sem = None
                  then AList.update sem \<lparr>s_semester = sem, s_total_sks = 0, s_total_mutu = 0,
                                          s_ips = 0\<rparr> per
                  else per)"
  define per2 where "per2 = AList.map_entry sem (\<lambda>e. e\<lparr>s_total_sks := s_total_sks e + sk\<rparr>) per1"
  define per3 where "per3 = AList.map_entry sem (\<lambda>e. e\<lparr>s_total_mutu := s_total_mutu e + mutu\<rparr>) per2"
  have step: "ipk_loop (row # rows) (m, t, per) = ipk_loop rows (m + mutu, t + sk, per3)"
    by (simp add: row Let_def mutu_def per1_def per2_def per3_def)
  have d3: "distinct (map fst per3)"
    using Cons.prems
    by (simp add: per3_def per2_def per1_def distinct_map_entry distinct_update)
  have m3: "map_of per3 s' =
     (if s' = sem
      then Some ((case map_of per sem of
                    None \<Rightarrow> \<lparr>s_semester = sem, s_total_sks = 0, s_total_mutu = 0, s_ips = 0\<rparr>
                  | Some e \<Rightarrow> e)\<lparr>s_total_sks := s_total_sks (case map_of per sem of
                    None \<Rightarrow> \<lparr>s_semester = sem, s_total_sks = 0, s_total_mutu = 0, s_ips = 0\<rparr>
                  | Some e \<Rightarrow> e) + sk,
                  s_total_mutu := s_total_mutu (case map_of per sem of
                    None \<Rightarrow> \<lparr>s_semester = sem, s_total_sks = 0, s_total_mutu = 0, s_ips = 0\<rparr>
                  | Some e \<Rightarrow> e) + mutu\<rparr>)
      else map_of per s')" for s'
    by (auto simp: per3_def per2_def per1_def map_of_map_entry update_conv' split: option.splits)
  from Cons.IH[OF d3, of "m + mutu" "t + sk"]
  have ih: "distinct (map fst (snd (snd (ipk_loop rows (m + mutu, t + sk, per3)))))"
    "map_of (snd (snd (ipk_loop rows (m + mutu, t + sk, per3)))) s = acc_entry rows s (map_of per3 s)"
    by auto
  have "acc_entry rows s (map_of per3 s) = acc_entry (row # rows) s (map_of per s)"
    by (auto simp: m3 acc_entry_def sem_sks_def sem_mutu_def row ips_row_sks_def ips_row_mutu_def
                   mutu_def split: option.splits)
  with ih step show ?case by simp
qed

lemma sum_list_insort_key:
  fixes f :: "'a \<Rightarrow> 'b::comm_monoid_add"
  shows "sum_list (map f (insort_key g x xs)) = f x + sum_list (map f xs)"
  by (induction xs) (auto simp: add.left_commute)

lemma sum_list_sort_key:
  fixes f :: "'a \<Rightarrow> 'b::comm_monoid_add"
  shows "sum_list (map f (sort_key g xs)) = sum_list (map f xs)"
  by (induction xs) (auto simp: sum_list_insort_key)

lemma distinct_map_sort_key: "distinct (map f (sort_key f xs)) = distinct (map f xs)"
  by (induction xs) (auto simp: distinct_insort_key)

lemma insort_key_map: "insort_key f (E x) (map E ys) = map E (insort_key (\<lambda>k. f (E k)) x ys)"
  by (induction ys) auto

lemma sort_key_map: "sort_key f (map E ks) = map E (sort_key (\<lambda>k. f (E k)) ks)"
  by (induction ks) (auto simp: insort_key_map)

lemma sort_distinct_is_sorted_list:
  fixes ks :: "int list"
  shows "distinct ks \<Longrightarrow> sort_key (\<lambda>k. k) ks = sorted_list_of_set (set ks)"
  by (simp add: sorted_list_of_set_sort_remdups distinct_remdups_id)

lemma sum_if_filter:
  fixes f :: "'a \<Rightarrow> 'b::comm_monoid_add"
  shows "sum_list (map (\<lambda>x. if P x then f x else 0) xs) = sum_list (map f (filter P xs))"
  by (induction xs) auto

section \<open>The reports on a store that satisfies the invariants\<close>

lemma row_of_simps:
  "ips_row_sks (ips_row_of d k) = spec_credit_weight d k"
  "ips_row_mutu (ips_row_of d k) = spec_quality_points d k"
  "ips_row_item (ips_row_of d k) = spec_item d k"
  "fst (ipk_row_of d k) = k_semester k"
  "snd (ipk_row_of d k) = ips_row_of d k"
  by (simp_all add: ips_row_sks_def ips_row_mutu_def ips_row_item_def ips_row_of_def
                    ipk_row_of_def spec_item_def spec_quality_points_def bobot_float_joined)

lemma sem_sums_wf:
  "sem_sks (sort_key fst (map (ipk_row_of d) (spec_enrollments d n))) s
     = spec_total_credit d (spec_term_enrollments d n s)"
  "sem_mutu (sort_key fst (map (ipk_row_of d) (spec_enrollments d n))) s
     = spec_total_quality d (spec_term_enrollments d n s)"
  by (simp_all add: sem_sks_def sem_mutu_def sum_list_sort_key o_def row_of_simps filter_sort
                    filter_map spec_total_credit_def spec_total_quality_def
                    spec_term_enrollments_def flip: sum_if_filter cong: if_cong)

lemma credit_weight_pos:
  assumes "wf_db d" and "k \<in> set (krs d)"
  shows "1 \<le> spec_credit_weight d k"
proof -
  from assms have fk: "k_kode_mk k \<in> kode_mk ` set (mata_kuliah d)"
    and rng: "\<forall>c \<in> set (mata_kuliah d). 1 \<le> sks c"
    by (auto simp: wf_db_def)
  from find_course_Some[OF fk] obtain c
    where c: "find (\<lambda>c. kode_mk c = k_kode_mk k) (mata_kuliah d) = Some c" by blast
  then have "c \<in> set (mata_kuliah d)"
    by (auto simp: find_Some_iff)
  with rng c show ?thesis by (simp add: spec_credit_weight_def)
qed

lemma total_credit_pos:
  assumes "wf_db d" and "set ks \<subseteq> set (krs d)" and "ks \<noteq> []"
  shows "0 < spec_total_credit d ks"
  using assms(2,3)
proof (induction ks)
  case Nil
  then show ?case by simp
next
  case (Cons k ks)
  then have "1 \<le> spec_credit_weight d k" by (simp add: credit_weight_pos[OF assms(1)])
  moreover have "0 \<le> spec_total_credit d ks"
  proof (cases "ks = []")
    case True
    then show ?thesis by (simp add: spec_total_credit_def)
  next
    case False
    with Cons show ?thesis by simp
  qed
  ultimately show ?case by (simp add: spec_total_credit_def)
qed

lemma term_enrollments_subset: "set (spec_term_enrollments d n s) \<subseteq> set (krs d)"
  by (auto simp: spec_term_enrollments_def spec_enrollments_def)

lemma enrollments_subset: "set (spec_enrollments d n) \<subseteq> set (krs d)"
  by (auto simp: spec_enrollments_def)

lemma hitung_ips_wf:
  assumes "wf_db d"
  shows "hitung_ips n s d =
     (case find (\<lambda>r. nim r = n) (mahasiswa d) of
        None \<Rightarrow> Inl (HTTPException 404 ''Mahasiswa tidak ditemukan'')
      | Some mhs \<Rightarrow>
          if spec_term_enrollments d n s = []
          then Inl (HTTPException 404
                     (''Tidak ada data nilai untuk mahasiswa '' @ n @ '' di semester ''
                      @ str_int s))
          else Inr \<lparr>ips_nim = n, ips_nama = nama mhs, ips_semester = s,
                    ips_mata_kuliah = map (spec_item d) (spec_term_enrollments d n s),
                    ips_total_sks = spec_total_credit d (spec_term_enrollments d n s),
                    ips_total_mutu = round2 (spec_total_quality d (spec_term_enrollments d n s)),
                    ips = round2 (spec_total_quality d (spec_term_enrollments d n s)
                                  / of_int (spec_total_credit d (spec_term_enrollments d n s)))\<rparr>)"
proof (cases "spec_term_enrollments d n s = []")
  case True
  then show ?thesis
    by (simp add: hitung_ips_eq_body hitung_ips_body_def ips_query_wf[OF assms]
             split: option.splits)
next
  case False
  from total_credit_pos[OF assms term_enrollments_subset False]
  have pos: "0 < spec_total_credit d (spec_term_enrollments d n s)" .
  show ?thesis
    using False pos
    by (simp add: hitung_ips_eq_body hitung_ips_body_def ips_query_wf[OF assms] ips_loop_sums
                  guarded_div_total row_of_simps o_def spec_total_credit_def
                  spec_total_quality_def
             split: option.splits)
qed

lemma per_semester_entries:
  assumes d: "distinct (map fst per)"
    and m: "\<And>s. map_of per s = (if s \<in> T then Some (R s) else None)"
  shows "map snd per = map R (map fst per)" and "set (map fst per) = T"
proof -
  have "\<And>p. p \<in> set per \<Longrightarrow> snd p = R (fst p)"
  proof -
    fix p assume "p \<in> set per"
    with d have "map_of per (fst p) = Some (snd p)"
      by simp
    with m[of "fst p"] show "snd p = R (fst p)"
      by (simp split: if_splits)
  qed
  then show "map snd per = map R (map fst per)" by simp
  show "set (map fst per) = T"
  proof -
    have "fst ` set per = dom (map_of per)" by (simp add: dom_map_of_conv_image_fst)
    also have "\<dots> = T" using m by (auto simp: dom_def)
    finally show ?thesis by simp
  qed
qed

lemma hitung_ipk_wf:
  assumes "wf_db d"
  shows "hitung_ipk n d =
     (case find (\<lambda>r. nim r = n) (mahasiswa d) of
        None \<Rightarrow> Inl (HTTPException 404 ''Mahasiswa tidak ditemukan'')
      | Some mhs \<Rightarrow>
          if spec_enrollments d n = []
          then Inl (HTTPException 404 (''Tidak ada data nilai untuk mahasiswa '' @ n))
          else Inr \<lparr>ipk_nim = n, ipk_nama = nama mhs, ipk_jurusan = jurusan mhs,
                    ipk_angkatan = angkatan mhs,
                    total_sks_kumulatif = spec_total_credit d (spec_enrollments d n),
                    total_mutu_kumulatif = round2 (spec_total_quality d (spec_enrollments d n)),
                    ipk = round2 (spec_total_quality d (spec_enrollments d n)
                                  / of_int (spec_total_credit d (spec_enrollments d n))),
                    detail_per_semester =
                      map (spec_term_entry d n)
                          (sorted_list_of_set (k_semester ` set (spec_enrollments d n)))\<rparr>)"
proof (cases "spec_enrollments d n = []")
  case True
  then show ?thesis
    by (simp add: hitung_ipk_eq_body hitung_ipk_body_def ipk_query_wf[OF assms]
             split: option.splits)
next
  case False
  define rows where "rows = sort_key fst (map (ipk_row_of d) (spec_enrollments d n))"
  define per where "per = snd (snd (ipk_loop rows (0, 0, [])))"
  define T where "T = k_semester ` set (spec_enrollments d n)"
  define R where "R = (\<lambda>s. \<lparr>s_semester = s,
      s_total_sks = spec_total_credit d (spec_term_enrollments d n s),
      s_total_mutu = spec_total_quality d (spec_term_enrollments d n s), s_ips = 0\<rparr>)"
  have rows_ne: "rows \<noteq> []"
    using False by (auto simp: rows_def dest: arg_cong[where f = length])
  have q: "ipk_query d n = rows"
    by (simp add: rows_def ipk_query_wf[OF assms])
  from total_credit_pos[OF assms enrollments_subset False]
  have pos: "0 < spec_total_credit d (spec_enrollments d n)" .
  have tot: "fst (ipk_loop rows (0, 0, [])) = spec_total_quality d (spec_enrollments d n)"
    "fst (snd (ipk_loop rows (0, 0, []))) = spec_total_credit d (spec_enrollments d n)"
    using ipk_loop_totals[of rows 0 0 "[]"]
    by (simp_all add: rows_def sum_list_sort_key o_def row_of_simps spec_total_credit_def
                      spec_total_quality_def)
  have sems: "fst ` set rows = T"
    by (auto simp: rows_def T_def row_of_simps image_image)
  have ss: "sem_sks rows s = spec_total_credit d (spec_term_enrollments d n s)"
    "sem_mutu rows s = spec_total_quality d (spec_term_enrollments d n s)" for s
    by (simp_all add: rows_def sem_sums_wf)
  have dper: "distinct (map fst per)"
    using ipk_loop_per[of "[]" rows 0 0 0] by (simp add: per_def)
  have mper: "map_of per s = (if s \<in> T then Some (R s) else None)" for s
    using ipk_loop_per[of "[]" rows 0 0 s] by (simp add: per_def acc_entry_def sems R_def ss)
  note pe = per_semester_entries[OF dper mper]
  have Tpos: "\<And>s. s \<in> T \<Longrightarrow> 0 < spec_total_credit d (spec_term_enrollments d n s)"
  proof -
    fix s assume "s \<in> T"
    then have "spec_term_enrollments d n s \<noteq> []"
      by (auto simp: T_def spec_term_enrollments_def filter_empty_conv)
    from total_credit_pos[OF assms term_enrollments_subset this]
    show "0 < spec_total_credit d (spec_term_enrollments d n s)" .
  qed
  have g: "map (\<lambda>(sem, e). (sem, e\<lparr>s_ips := round2 (if 0 < s_total_sks e
                                                   then s_total_mutu e / of_int (s_total_sks e)
                                                   else 0),
                                   s_total_mutu := round2 (s_total_mutu e)\<rparr>)) per
           = map (\<lambda>s. (s, spec_term_entry d n s)) (map fst per)"
  proof -
    have "\<And>p. p \<in> set per \<Longrightarrow>
            (case p of (sem, e) \<Rightarrow> (sem, e\<lparr>s_ips := round2 (if 0 < s_total_sks e
                                                   then s_total_mutu e / of_int (s_total_sks e)
                                                   else 0),
                                   s_total_mutu := round2 (s_total_mutu e)\<rparr>))
            = (fst p, spec_term_entry d n (fst p))"
    proof -
      fix p assume p: "p \<in> set per"
      with dper have "map_of per (fst p) = Some (snd p)"
        by simp
      with mper[of "fst p"] have "fst p \<in> T" and "snd p = R (fst p)"
        by (simp_all split: if_splits)
      with Tpos[of "fst p"] show "(case p of (sem, e) \<Rightarrow> (sem, e\<lparr>s_ips := round2 (if 0 < s_total_sks e
                                                   then s_total_mutu e / of_int (s_total_sks e)
                                                   else 0),
                                   s_total_mutu := round2 (s_total_mutu e)\<rparr>))
            = (fst p, spec_term_entry d n (fst p))"
        by (cases p) (simp add: R_def spec_term_entry_def)
    qed
    then show ?thesis by (simp add: o_def)
  qed
  have detail: "sort_key s_semester (map snd (map (\<lambda>s. (s, spec_term_entry d n s)) (map fst per)))
      = map (spec_term_entry d n) (sorted_list_of_set T)"
  proof -
    have "sort_key s_semester (map (spec_term_entry d n) (map fst per))
          = map (spec_term_entry d n) (sort_key (\<lambda>k. k) (map fst per))"
      by (simp add: sort_key_map spec_term_entry_def)
    also have "sort_key (\<lambda>k. k) (map fst per) = sorted_list_of_set (set (map fst per))"
      using dper by (rule sort_distinct_is_sorted_list)
    finally show ?thesis using pe(2) by (simp add: o_def)
  qed
  obtain a b c where loop: "ipk_loop rows (0, 0, []) = (a, b, c)"
    by (cases "ipk_loop rows (0, 0, [])") auto
  with tot per_def have abc: "a = spec_total_quality d (spec_enrollments d n)"
    "b = spec_total_credit d (spec_enrollments d n)" "c = per"
    by simp_all
  have final: "sort_key s_semester
       (map snd (map (\<lambda>(sem, e). (sem, e\<lparr>s_ips := round2 (if 0 < s_total_sks e
                                                   then s_total_mutu e / of_int (s_total_sks e)
                                                   else 0),
                                   s_total_mutu := round2 (s_total_mutu e)\<rparr>)) per))
     = map (spec_term_entry d n) (sorted_list_of_set (k_semester ` set (spec_enrollments d n)))"
    unfolding g detail T_def ..
  show ?thesis
    using False rows_ne pos
    by (simp add: hitung_ipk_eq_body hitung_ipk_body_def q loop abc ips_per_semester_map final
                  guarded_div_total
             del: map_map split: option.splits)
qed

section \<open>The example stores evaluated\<close>

lemmas example_defs = db_a_def db_third_def db_terms_def student_ani_def student_budi_def
  weights_ex_def

lemmas spec_defs = spec_term_enrollments_def spec_enrollments_def spec_total_credit_def
  spec_total_quality_def spec_quality_points_def spec_credit_weight_def spec_weight_def
  spec_course_name_def spec_item_def spec_term_entry_def



lemma find_student: "find (\<lambda>r. nim r = n) ms \<noteq> None \<longleftrightarrow> n \<in> nim ` set ms"
  by (simp add: find_None_image)

lemma verify_admin_ex: "verify_admin authority_ex (Some ''Bearer admin'') = Inr admin_ex"
  by (simp add: verify_admin_def verify_admin_try_def authority_ex_def admin_ex_def)

lemma wf_db_a: "wf_db db_a"
  by (simp add: wf_db_def example_defs)







section \<open>The semester report\<close>




section \<open>The cumulative report\<close>




section \<open>The invariants are kept by the POST routes\<close>

lemma wf_post_mahasiswa:
  "wf_db d \<Longrightarrow> wf_db (snd (post_mahasiswa authority auth m d))"
  by (auto simp: post_mahasiswa_def create_mahasiswa_def get_db_connection_def
                 create_mahasiswa_body_def find_None_image wf_db_def Let_def
           split: sum.splits if_splits)

lemma wf_post_mata_kuliah:
  "wf_db d \<Longrightarrow> wf_db (snd (post_mata_kuliah authority auth c d))"
  by (auto simp: post_mata_kuliah_def create_mata_kuliah_def get_db_connection_def
                 create_mata_kuliah_body_def find_None_image wf_db_def Let_def
                 MataKuliah_valid_def
           split: sum.splits if_splits)

lemma wf_post_nilai:
  "wf_db d \<Longrightarrow> wf_db (snd (post_nilai authority auth k d))"
  by (auto simp: post_nilai_def create_nilai_def get_db_connection_def
                 create_nilai_body_def find_None_image find_triple_None wf_db_def Let_def
                 KRS_valid_def
           split: sum.splits if_splits)

lemma reachable_wf: "reachable d \<Longrightarrow> wf_db d"
  by (induction rule: reachable.induct)
     (simp_all add: wf_post_mahasiswa wf_post_mata_kuliah wf_post_nilai)

lemma find_student_Some:
  "n \<in> nim ` set ms \<Longrightarrow> \<exists>mhs. find (\<lambda>r. nim r = n) ms = Some mhs"
  using find_student[of n ms] by auto

lemma wf_semester_range:
  "wf_db d \<Longrightarrow> 14 < s \<or> s < 1 \<Longrightarrow> spec_term_enrollments d n s = []"
  by (auto simp: wf_db_def spec_term_enrollments_def spec_enrollments_def filter_empty_conv)

lemma str_int_examples: "str_int 2 = ''2''" "str_int 15 = ''15''"
  by code_simp+

lemma wf_db_ungraded: "wf_db db_ungraded"
  by (simp add: wf_db_def db_ungraded_def example_defs)

lemma reachable_db_a: "reachable db_a"
proof -
  have start: "reachable db_start"
    using wf_db_a by (intro reachable_init) (simp_all add: db_start_def wf_db_def)
  have "db_a = snd (post_nilai authority_ex (Some ''Bearer admin'') krs_second
                 (snd (post_nilai authority_ex (Some ''Bearer admin'') krs_first db_start)))"
    by (simp add: post_nilai_def verify_admin_ex KRS_valid_def krs_first_def krs_second_def
                  create_nilai_def get_db_connection_def create_nilai_body_def db_start_def
                  example_defs admin_ex_def Let_def)
  moreover have "reachable (snd (post_nilai authority_ex (Some ''Bearer admin'') krs_second
                 (snd (post_nilai authority_ex (Some ''Bearer admin'') krs_first db_start))))"
    by (intro reachable_nilai start)
  ultimately show ?thesis by (simp only:)
qed

section \<open>When the reports are not found\<close>

text \<open>
  Claim C8. On a store that satisfies the invariants, \<^verbatim>\<open>hitung_ips\<close> fails with 404 exactly
  when the student id is not in the store or the student has no enrollment in the given term,
  and returns a report exactly in the other case; \<^verbatim>\<open>hitung_ipk\<close> fails with 404 exactly
  when the student id is not in the store or the student has no enrollment at all, and
  returns a report exactly in the other case.
\<close>

theorem not_found_exactly:
  "wf_db d \<longrightarrow>
     ((\<exists>det. hitung_ips n s d = Inl (HTTPException 404 det))
        \<longleftrightarrow> (n \<notin> nim ` set (mahasiswa d) \<or> spec_term_enrollments d n s = []))
   \<and> ((\<exists>rep. hitung_ips n s d = Inr rep)
        \<longleftrightarrow> (n \<in> nim ` set (mahasiswa d) \<and> spec_term_enrollments d n s \<noteq> []))
   \<and> ((\<exists>det. hitung_ipk n d = Inl (HTTPException 404 det))
        \<longleftrightarrow> (n \<notin> nim ` set (mahasiswa d) \<or> spec_enrollments d n = []))
   \<and> ((\<exists>rep. hitung_ipk n d = Inr rep)
        \<longleftrightarrow> (n \<in> nim ` set (mahasiswa d) \<and> spec_enrollments d n \<noteq> []))"
proof
  assume wf: "wf_db d"
  show "((\<exists>det. hitung_ips n s d = Inl (HTTPException 404 det))
        \<longleftrightarrow> (n \<notin> nim ` set (mahasiswa d) \<or> spec_term_enrollments d n s = []))
   \<and> ((\<exists>rep. hitung_ips n s d = Inr rep)
        \<longleftrightarrow> (n \<in> nim ` set (mahasiswa d) \<and> spec_term_enrollments d n s \<noteq> []))
   \<and> ((\<exists>det. hitung_ipk n d = Inl (HTTPException 404 det))
        \<longleftrightarrow> (n \<notin> nim ` set (mahasiswa d) \<or> spec_enrollments d n = []))
   \<and> ((\<exists>rep. hitung_ipk n d = Inr rep)
        \<longleftrightarrow> (n \<in> nim ` set (mahasiswa d) \<and> spec_enrollments d n \<noteq> []))"
  proof (cases "find (\<lambda>r. nim r = n) (mahasiswa d)")
    case None
    then have "n \<notin> nim ` set (mahasiswa d)" by (simp add: find_None_image)
    with None show ?thesis
      by (simp add: hitung_ips_wf[OF wf] hitung_ipk_wf[OF wf])
  next
    case (Some mhs)
    then have "n \<in> nim ` set (mahasiswa d)"
      using find_student[of n "mahasiswa d"] by simp
    with Some show ?thesis
      by (simp add: hitung_ips_wf[OF wf] hitung_ipk_wf[OF wf])
  qed
qed

theorem not_found_exactly_witness:
  "wf_db db_a
   \<and> ''M9'' \<notin> nim ` set (mahasiswa db_a)
   \<and> (\<exists>det. hitung_ips ''M9'' 1 db_a = Inl (HTTPException 404 det))
   \<and> (\<exists>det. hitung_ipk ''M9'' db_a = Inl (HTTPException 404 det))
   \<and> spec_term_enrollments db_a ''M1'' 2 = []
   \<and> (\<exists>det. hitung_ips ''M1'' 2 db_a = Inl (HTTPException 404 det))
   \<and> spec_enrollments db_a ''M2'' = []
   \<and> (\<exists>det. hitung_ipk ''M2'' db_a = Inl (HTTPException 404 det))
   \<and> ''M1'' \<in> nim ` set (mahasiswa db_a) \<and> spec_term_enrollments db_a ''M1'' 1 \<noteq> []
   \<and> (\<exists>rep. hitung_ips ''M1'' 1 db_a = Inr rep)
   \<and> (\<exists>rep. hitung_ipk ''M1'' db_a = Inr rep)"
proof -
  have h: "''M9'' \<notin> nim ` set (mahasiswa db_a)" "spec_term_enrollments db_a ''M1'' 2 = []"
    "spec_enrollments db_a ''M2'' = []" "''M1'' \<in> nim ` set (mahasiswa db_a)"
    "spec_term_enrollments db_a ''M1'' 1 \<noteq> []" "spec_enrollments db_a ''M1'' \<noteq> []"
    by (simp_all add: example_defs spec_defs)
  from not_found_exactly[of db_a "''M9''" 1] not_found_exactly[of db_a "''M1''" 2]
       not_found_exactly[of db_a "''M2''" 1] not_found_exactly[of db_a "''M1''" 1]
       wf_db_a h
  show ?thesis by simp
qed

section \<open>The range of the term number\<close>

text \<open>
  Claim C9. The route of the semester report rejects a term below 1 as a validation error,
  whatever the store, and hands every term from 1 on to the handler, with no upper bound. A
  created enrollment has the term of its request, which is within 1..14; so every enrollment
  of a store that the service produces has its term within 1..14, and for a student of such a
  store and a term above 14 the accepted query ends in the 404 of a term without
  enrollments.
\<close>

theorem term_bounds:
  "(s < 1 \<longrightarrow> get_ips n s d = Inl RequestValidationError)
   \<and> (1 \<le> s \<longrightarrow> get_ips n s d = hitung_ips n s d)
   \<and> (fst (post_nilai authority auth k d) = Inr r \<longrightarrow>
        1 \<le> k_semester (data r) \<and> k_semester (data r) \<le> 14
        \<and> k_semester (data r) = krs_semester k)
   \<and> (reachable d \<longrightarrow> (\<forall>e \<in> set (krs d). 1 \<le> k_semester e \<and> k_semester e \<le> 14))
   \<and> (reachable d \<and> n \<in> nim ` set (mahasiswa d) \<and> 14 < s \<longrightarrow>
        get_ips n s d =
          Inl (HTTPException 404
                (''Tidak ada data nilai untuk mahasiswa '' @ n @ '' di semester '' @ str_int s)))"
proof (intro conjI impI)
  show "get_ips n s d = Inl RequestValidationError" if "s < 1"
    using that by (simp add: get_ips_def)
  show "get_ips n s d = hitung_ips n s d" if "1 \<le> s"
    using that by (simp add: get_ips_def)
  show "1 \<le> k_semester (data r)" "k_semester (data r) \<le> 14" "k_semester (data r) = krs_semester k"
    if "fst (post_nilai authority auth k d) = Inr r"
    using that
    by (auto simp: post_nilai_def create_nilai_def get_db_connection_def create_nilai_body_def
                   KRS_valid_def Let_def reraise_Inr_iff
             split: sum.splits if_splits)
  show "\<forall>e \<in> set (krs d). 1 \<le> k_semester e \<and> k_semester e \<le> 14" if "reachable d"
    using reachable_wf[OF that] by (simp add: wf_db_def)
  show "get_ips n s d =
          Inl (HTTPException 404
                (''Tidak ada data nilai untuk mahasiswa '' @ n @ '' di semester '' @ str_int s))"
    if a: "reachable d \<and> n \<in> nim ` set (mahasiswa d) \<and> 14 < s"
  proof -
    from a have wf: "wf_db d" by (simp add: reachable_wf)
    from a find_student_Some obtain mhs where "find (\<lambda>r. nim r = n) (mahasiswa d) = Some mhs"
      by blast
    with a wf_semester_range[OF wf, of s n] show ?thesis
      by (simp add: get_ips_def hitung_ips_wf[OF wf])
  qed
qed

theorem term_bounds_witness:
  "reachable db_a \<and> ''M1'' \<in> nim ` set (mahasiswa db_a)
   \<and> get_ips ''M1'' 15 db_a =
       Inl (HTTPException 404 ''Tidak ada data nilai untuk mahasiswa M1 di semester 15'')
   \<and> get_ips ''M1'' 0 db_a = Inl RequestValidationError
   \<and> get_ips ''M1'' 1 db_a = hitung_ips ''M1'' 1 db_a
   \<and> fst (post_nilai authority_ex (Some ''Bearer admin'') krs_new db_a)
       = Inr \<lparr>message = ''Nilai/KRS berhasil ditambahkan'',
              data = \<lparr>id_krs = 3, k_nim = ''M1'', k_kode_mk = ''IF1'', k_nilai = None,
                      k_semester = 2\<rparr>,
              created_by = JStr ''root''\<rparr>
   \<and> list_all (\<lambda>e. 1 \<le> k_semester e \<and> k_semester e \<le> 14) (krs db_a)"
proof -
  have h: "''M1'' \<in> nim ` set (mahasiswa db_a)"
    by (simp add: example_defs)
  have p: "fst (post_nilai authority_ex (Some ''Bearer admin'') krs_new db_a)
       = Inr \<lparr>message = ''Nilai/KRS berhasil ditambahkan'',
              data = \<lparr>id_krs = 3, k_nim = ''M1'', k_kode_mk = ''IF1'', k_nilai = None,
                      k_semester = 2\<rparr>,
              created_by = JStr ''root''\<rparr>"
    by (simp add: post_nilai_def verify_admin_ex KRS_valid_def krs_new_def
                  create_nilai_def get_db_connection_def create_nilai_body_def
                  example_defs Let_def admin_ex_def)
  note inst = term_bounds[where n = "''M1''" and d = db_a and authority = authority_ex
      and auth = "Some ''Bearer admin''" and k = krs_new
      and r = "\<lparr>message = ''Nilai/KRS berhasil ditambahkan'',
              data = \<lparr>id_krs = 3, k_nim = ''M1'', k_kode_mk = ''IF1'', k_nilai = None,
                      k_semester = 2\<rparr>,
              created_by = JStr ''root''\<rparr>"]
  have "(14::int) < 15" by simp
  with inst[of 15] reachable_db_a h
  have "get_ips ''M1'' 15 db_a =
       Inl (HTTPException 404
             (''Tidak ada data nilai untuk mahasiswa '' @ ''M1'' @ '' di semester '' @ str_int 15))"
    and "\<forall>e \<in> set (krs db_a). 1 \<le> k_semester e \<and> k_semester e \<le> 14"
    by blast+
  then have a: "get_ips ''M1'' 15 db_a =
       Inl (HTTPException 404 ''Tidak ada data nilai untuk mahasiswa M1 di semester 15'')"
    and b: "list_all (\<lambda>e. 1 \<le> k_semester e \<and> k_semester e \<le> 14) (krs db_a)"
    by (simp_all add: str_int_examples list_all_iff)
  from inst[of 0] have c: "get_ips ''M1'' 0 db_a = Inl RequestValidationError"
    by simp
  from inst[of 1] have d: "get_ips ''M1'' 1 db_a = hitung_ips ''M1'' 1 db_a"
    by simp
  from a b c d reachable_db_a h p show ?thesis
    by (intro conjI)
qed

section \<open>Grades are stored as they come\<close>

lemma forget_grade_simps:
  "mahasiswa (forget_grade g d) = mahasiswa d"
  "mata_kuliah (forget_grade g d) = mata_kuliah d"
  "bobot_nilai (forget_grade g d) = bobot_nilai d"
  by (simp_all add: forget_grade_def)

lemma forget_grade_key:
  "(\<lambda>k. (k_nim k, k_kode_mk k, k_semester k))
     \<circ> (\<lambda>k. if k_nilai k = Some g then k\<lparr>k_nilai := None\<rparr> else k)
   = (\<lambda>k. (k_nim k, k_kode_mk k, k_semester k))"
  by (auto simp: fun_eq_iff)

lemma wf_forget_grade: "wf_db d \<Longrightarrow> wf_db (forget_grade g d)"
  by (auto simp: wf_db_def forget_grade_def forget_grade_key)

lemma forget_grade_enrollments:
  "spec_enrollments (forget_grade g d) n
     = map (\<lambda>k. if k_nilai k = Some g then k\<lparr>k_nilai := None\<rparr> else k) (spec_enrollments d n)"
  "spec_term_enrollments (forget_grade g d) n s
     = map (\<lambda>k. if k_nilai k = Some g then k\<lparr>k_nilai := None\<rparr> else k)
           (spec_term_enrollments d n s)"
  by (simp_all add: spec_term_enrollments_def spec_enrollments_def forget_grade_def filter_map
                    o_def if_distrib[of k_nim] if_distrib[of k_semester] cong: if_cong)

lemma forget_grade_totals:
  assumes "g \<notin> fst ` set (bobot_nilai d)"
  shows "spec_total_credit (forget_grade g d)
           (map (\<lambda>k. if k_nilai k = Some g then k\<lparr>k_nilai := None\<rparr> else k) ks)
         = spec_total_credit d ks"
    and "spec_total_quality (forget_grade g d)
           (map (\<lambda>k. if k_nilai k = Some g then k\<lparr>k_nilai := None\<rparr> else k) ks)
         = spec_total_quality d ks"
    and "map (\<lambda>i. i\<lparr>i_nilai := None\<rparr>) (map (spec_item (forget_grade g d))
           (map (\<lambda>k. if k_nilai k = Some g then k\<lparr>k_nilai := None\<rparr> else k) ks))
         = map (\<lambda>i. i\<lparr>i_nilai := None\<rparr>) (map (spec_item d) ks)"
proof -
  from assms have none: "map_of (bobot_nilai d) g = None"
    by (simp add: map_of_eq_None_iff)
  show "spec_total_credit (forget_grade g d)
           (map (\<lambda>k. if k_nilai k = Some g then k\<lparr>k_nilai := None\<rparr> else k) ks)
         = spec_total_credit d ks"
    by (induction ks)
       (simp_all add: spec_total_credit_def spec_credit_weight_def forget_grade_simps)
  show "spec_total_quality (forget_grade g d)
           (map (\<lambda>k. if k_nilai k = Some g then k\<lparr>k_nilai := None\<rparr> else k) ks)
         = spec_total_quality d ks"
    by (induction ks)
       (simp_all add: spec_total_quality_def spec_quality_points_def spec_credit_weight_def
                      spec_weight_def forget_grade_simps none split: option.splits)
  show "map (\<lambda>i. i\<lparr>i_nilai := None\<rparr>) (map (spec_item (forget_grade g d))
           (map (\<lambda>k. if k_nilai k = Some g then k\<lparr>k_nilai := None\<rparr> else k) ks))
         = map (\<lambda>i. i\<lparr>i_nilai := None\<rparr>) (map (spec_item d) ks)"
    by (induction ks)
       (simp_all add: spec_item_def spec_quality_points_def spec_credit_weight_def
                      spec_course_name_def spec_weight_def forget_grade_simps none
                 split: option.splits)
qed

lemma forget_grade_reports:
  assumes wf: "wf_db d" and g: "g \<notin> fst ` set (bobot_nilai d)"
  shows "hitung_ipk n (forget_grade g d) = hitung_ipk n d"
    and "map_sum id grade_free (hitung_ips n s (forget_grade g d))
         = map_sum id grade_free (hitung_ips n s d)"
proof -
  note wf' = wf_forget_grade[OF wf, of g]
  have sems: "k_semester ` set (spec_enrollments (forget_grade g d) n)
              = k_semester ` set (spec_enrollments d n)"
  proof -
    have "map k_semester (map (\<lambda>k. if k_nilai k = Some g then k\<lparr>k_nilai := None\<rparr> else k) ks)
          = map k_semester ks" for ks
      by (induction ks) auto
    from arg_cong[OF this, of set, of "spec_enrollments d n"] show ?thesis
      by (simp only: forget_grade_enrollments set_map)
  qed
  have entry: "spec_term_entry (forget_grade g d) n = spec_term_entry d n"
    by (simp add: fun_eq_iff spec_term_entry_def forget_grade_enrollments
                  forget_grade_totals[OF g])
  have tot: "spec_total_credit (forget_grade g d) (spec_enrollments (forget_grade g d) n)
             = spec_total_credit d (spec_enrollments d n)"
    "spec_total_quality (forget_grade g d) (spec_enrollments (forget_grade g d) n)
             = spec_total_quality d (spec_enrollments d n)"
    "spec_enrollments (forget_grade g d) n = [] \<longleftrightarrow> spec_enrollments d n = []"
    by (simp_all add: forget_grade_enrollments forget_grade_totals[OF g])
  show "hitung_ipk n (forget_grade g d) = hitung_ipk n d"
    by (simp add: hitung_ipk_wf[OF wf] hitung_ipk_wf[OF wf'] forget_grade_simps sems entry tot
             split: option.splits)
  show "map_sum id grade_free (hitung_ips n s (forget_grade g d))
         = map_sum id grade_free (hitung_ips n s d)"
    using forget_grade_totals(3)[OF g, of "spec_term_enrollments d n s"]
    by (simp add: hitung_ips_wf[OF wf] hitung_ips_wf[OF wf'] forget_grade_simps grade_free_def
                  forget_grade_enrollments forget_grade_totals(1,2)[OF g]
             del: map_map split: option.splits)
qed

text \<open>
  Claim C10. The route that creates an enrollment does not look at the grade: whenever the
  gate lets the request through, the term is valid, student and course exist and the
  (student, course, term) is new, the request with any grade \<open>g\<close> in place of its own (any
  string, or none) appends the record with exactly that grade. In the GPA computations a
  grade without entry in the weight table behaves as an absent one: replacing it by no grade
  in every enrollment changes neither the cumulative report nor, the echoed grades apart,
  the semester report; the weight of both is 0.
\<close>

theorem any_grade_accepted:
  "(verify_admin authority auth = Inr admin \<and> KRS_valid k
      \<and> krs_nim k \<in> nim ` set (mahasiswa d) \<and> krs_kode_mk k \<in> kode_mk ` set (mata_kuliah d)
      \<and> (krs_nim k, krs_kode_mk k, krs_semester k)
           \<notin> (\<lambda>r. (k_nim r, k_kode_mk r, k_semester r)) ` set (krs d) \<longrightarrow>
      post_nilai authority auth (k\<lparr>krs_nilai := g\<rparr>) d =
        (Inr \<lparr>message = ''Nilai/KRS berhasil ditambahkan'',
              data = \<lparr>id_krs = krs_id_seq d, k_nim = krs_nim k, k_kode_mk = krs_kode_mk k,
                      k_nilai = g, k_semester = krs_semester k\<rparr>,
              created_by = projr (py_get admin ''username'')\<rparr>,
         d\<lparr>krs := krs d @ [\<lparr>id_krs = krs_id_seq d, k_nim = krs_nim k,
                             k_kode_mk = krs_kode_mk k, k_nilai = g,
                             k_semester = krs_semester k\<rparr>],
           krs_id_seq := krs_id_seq d + 1\<rparr>))
   \<and> (wf_db d \<and> l \<notin> fst ` set (bobot_nilai d) \<longrightarrow>
        hitung_ipk n (forget_grade l d) = hitung_ipk n d
        \<and> map_sum id grade_free (hitung_ips n s (forget_grade l d))
            = map_sum id grade_free (hitung_ips n s d)
        \<and> spec_weight d (Some l) = 0 \<and> spec_weight d None = 0)"
proof (intro conjI impI)
  assume a: "verify_admin authority auth = Inr admin \<and> KRS_valid k
      \<and> krs_nim k \<in> nim ` set (mahasiswa d) \<and> krs_kode_mk k \<in> kode_mk ` set (mata_kuliah d)
      \<and> (krs_nim k, krs_kode_mk k, krs_semester k)
           \<notin> (\<lambda>r. (k_nim r, k_kode_mk r, k_semester r)) ` set (krs d)"
  then obtain u where "admin = JObj u"
    using verify_admin_Inr[of authority auth admin] by (cases admin) auto
  with a show "post_nilai authority auth (k\<lparr>krs_nilai := g\<rparr>) d =
        (Inr \<lparr>message = ''Nilai/KRS berhasil ditambahkan'',
              data = \<lparr>id_krs = krs_id_seq d, k_nim = krs_nim k, k_kode_mk = krs_kode_mk k,
                      k_nilai = g, k_semester = krs_semester k\<rparr>,
              created_by = projr (py_get admin ''username'')\<rparr>,
         d\<lparr>krs := krs d @ [\<lparr>id_krs = krs_id_seq d, k_nim = krs_nim k,
                             k_kode_mk = krs_kode_mk k, k_nilai = g,
                             k_semester = krs_semester k\<rparr>],
           krs_id_seq := krs_id_seq d + 1\<rparr>)"
    by (simp add: post_nilai_def KRS_valid_def create_nilai_def get_db_connection_def
                  create_nilai_body_def find_None_image find_triple_None Let_def)
next
  assume a: "wf_db d \<and> l \<notin> fst ` set (bobot_nilai d)"
  then show "hitung_ipk n (forget_grade l d) = hitung_ipk n d"
    by (simp add: forget_grade_reports)
  from a show "map_sum id grade_free (hitung_ips n s (forget_grade l d))
            = map_sum id grade_free (hitung_ips n s d)"
    by (simp add: forget_grade_reports)
  from a have "map_of (bobot_nilai d) l = None"
    by (simp add: map_of_eq_None_iff)
  then show "spec_weight d (Some l) = 0"
    by (simp add: spec_weight_def)
  show "spec_weight d None = 0" by (simp add: spec_weight_def)
qed

theorem any_grade_accepted_witness:
  "verify_admin authority_ex (Some ''Bearer admin'') = Inr admin_ex \<and> KRS_valid krs_odd_grade
   \<and> post_nilai authority_ex (Some ''Bearer admin'') krs_odd_grade db_a =
        (Inr \<lparr>message = ''Nilai/KRS berhasil ditambahkan'',
              data = \<lparr>id_krs = 3, k_nim = ''M2'', k_kode_mk = ''IF1'',
                      k_nilai = Some ''not a grade'', k_semester = 14\<rparr>,
              created_by = JStr ''root''\<rparr>,
         db_a\<lparr>krs := krs db_a @ [\<lparr>id_krs = 3, k_nim = ''M2'', k_kode_mk = ''IF1'',
                                  k_nilai = Some ''not a grade'', k_semester = 14\<rparr>],
              krs_id_seq := 4\<rparr>)
   \<and> wf_db db_ungraded \<and> ''X'' \<notin> fst ` set (bobot_nilai db_ungraded)
   \<and> hitung_ipk ''M1'' (forget_grade ''X'' db_ungraded) = hitung_ipk ''M1'' db_ungraded
   \<and> map_sum id grade_free (hitung_ips ''M1'' 1 (forget_grade ''X'' db_ungraded))
       = map_sum id grade_free (hitung_ips ''M1'' 1 db_ungraded)
   \<and> map k_nilai (krs (forget_grade ''X'' db_ungraded)) = [Some ''A'', None, None]
   \<and> spec_weight db_ungraded (Some ''X'') = 0"
proof -
  have h: "KRS_valid krs_odd_grade" "krs_nim krs_odd_grade \<in> nim ` set (mahasiswa db_a)"
    "krs_kode_mk krs_odd_grade \<in> kode_mk ` set (mata_kuliah db_a)"
    "(krs_nim krs_odd_grade, krs_kode_mk krs_odd_grade, krs_semester krs_odd_grade)
       \<notin> (\<lambda>r. (k_nim r, k_kode_mk r, k_semester r)) ` set (krs db_a)"
    "krs_odd_grade\<lparr>krs_nilai := Some ''not a grade''\<rparr> = krs_odd_grade"
    "krs_id_seq db_a = 3" "projr (py_get admin_ex ''username'') = JStr ''root''"
    "krs_nim krs_odd_grade = ''M2''" "krs_kode_mk krs_odd_grade = ''IF1''"
    "krs_semester krs_odd_grade = 14"
    by (simp_all add: krs_odd_grade_def KRS_valid_def example_defs admin_ex_def)
  have u: "''X'' \<notin> fst ` set (bobot_nilai db_ungraded)"
    "map k_nilai (krs (forget_grade ''X'' db_ungraded)) = [Some ''A'', None, None]"
    by (simp_all add: db_ungraded_def forget_grade_def example_defs)
  from any_grade_accepted[where authority = authority_ex and auth = "Some ''Bearer admin''"
         and admin = admin_ex and k = krs_odd_grade and g = "Some ''not a grade''"
         and d = db_a]
       any_grade_accepted[where d = db_ungraded and l = "''X''" and n = "''M1''" and s = 1]
       verify_admin_ex h u wf_db_ungraded
  show ?thesis by simp
qed

section \<open>Enrollments without a weight\<close>






lemma total_credit_nonneg:
  assumes "wf_db d" and "set ks \<subseteq> set (krs d)"
  shows "0 \<le> spec_total_credit d ks"
proof (cases "ks = []")
  case True
  then show ?thesis by (simp add: spec_total_credit_def)
next
  case False
  from total_credit_pos[OF assms False] show ?thesis by simp
qed














section \<open>Rounding\<close>







section \<open>The division guard\<close>

lemma hitung_ips_db_zero:
  "hitung_ips ''M1'' 1 db_zero =
     Inr \<lparr>ips_nim = ''M1'', ips_nama = ''Ani'', ips_semester = 1,
          ips_mata_kuliah = [\<lparr>i_kode_mk = ''IF0'', i_nama_mk = ''Seminar'', i_sks = 0,
                               i_nilai = Some ''A'', i_bobot = 4, i_mutu = 0\<rparr>],
          ips_total_sks = 0, ips_total_mutu = 0, ips = 0\<rparr>"
  by (simp add: hitung_ips_eq_body hitung_ips_body_def db_zero_def student_ani_def
                weights_ex_def ips_query_def left_join_bobot_def bobot_float_def
                guarded_div_total round2_zero)

lemma hitung_ipk_db_zero:
  "hitung_ipk ''M1'' db_zero =
     Inr \<lparr>ipk_nim = ''M1'', ipk_nama = ''Ani'', ipk_jurusan = ''TI'', ipk_angkatan = 2022,
          total_sks_kumulatif = 0, total_mutu_kumulatif = 0, ipk = 0,
          detail_per_semester = [\<lparr>s_semester = 1, s_total_sks = 0, s_total_mutu = 0,
                                   s_ips = 0\<rparr>]\<rparr>"
  by (simp add: hitung_ipk_eq_body hitung_ipk_body_def db_zero_def student_ani_def
                weights_ex_def ipk_query_def left_join_bobot_def bobot_float_def
                guarded_div_total round2_zero)

text \<open>
  Claim C4. The division of both computations is guarded: \<open>guarded_div\<close>, the only place
  where either handler divides, never raises and gives 0 when the total credit weight is not
  positive. Hence neither handler ever ends in the 500 that a \<^verbatim>\<open>ZeroDivisionError\<close> would
  become, and a report whose total credit weight (of the term, of a term of the cumulative
  report, or of all terms) is 0 has 0 as the corresponding GPA.
\<close>

theorem division_guarded:
  "guarded_div m t = Inr (if 0 < t then m / of_int t else 0)
   \<and> hitung_ips n s conn \<noteq> Inl (HTTPException 500 d)
   \<and> hitung_ipk n conn \<noteq> Inl (HTTPException 500 d)
   \<and> (hitung_ips n s conn = Inr rep \<and> ips_total_sks rep = 0 \<longrightarrow> ips rep = 0)
   \<and> (hitung_ipk n conn = Inr rep' \<and> total_sks_kumulatif rep' = 0 \<longrightarrow> ipk rep' = 0)
   \<and> (hitung_ipk n conn = Inr rep' \<and> e \<in> set (detail_per_semester rep') \<and> s_total_sks e = 0
        \<longrightarrow> s_ips e = 0)"
proof (intro conjI impI)
  show "guarded_div m t = Inr (if 0 < t then m / of_int t else 0)"
    by (rule guarded_div_total)
  show "hitung_ips n s conn \<noteq> Inl (HTTPException 500 d)"
    using hitung_ips_body_cases[of n s conn "HTTPException 500 d"]
    by (auto simp: hitung_ips_eq_body)
  show "hitung_ipk n conn \<noteq> Inl (HTTPException 500 d)"
    using hitung_ipk_body_cases[of n conn "HTTPException 500 d"]
    by (auto simp: hitung_ipk_eq_body)
  show "ips rep = 0" if "hitung_ips n s conn = Inr rep \<and> ips_total_sks rep = 0"
    using that
    by (auto simp: hitung_ips_eq_body hitung_ips_body_def Let_def guarded_div_total round2_zero
             split: option.splits prod.splits if_splits)
  show "ipk rep' = 0" if "hitung_ipk n conn = Inr rep' \<and> total_sks_kumulatif rep' = 0"
    using that
    by (auto simp: hitung_ipk_eq_body hitung_ipk_body_def Let_def guarded_div_total round2_zero
             ips_per_semester_map split: option.splits prod.splits if_splits)
  show "s_ips e = 0"
    if "hitung_ipk n conn = Inr rep' \<and> e \<in> set (detail_per_semester rep') \<and> s_total_sks e = 0"
    using that
    by (auto simp: hitung_ipk_eq_body hitung_ipk_body_def Let_def guarded_div_total round2_zero
             ips_per_semester_map split: option.splits prod.splits if_splits)
qed

theorem division_guarded_witness:
  "hitung_ips ''M1'' 1 db_zero \<noteq> Inl (HTTPException 500 ''float division by zero'')
   \<and> ips_total_sks (projr (hitung_ips ''M1'' 1 db_zero)) = 0
   \<and> ips (projr (hitung_ips ''M1'' 1 db_zero)) = 0
   \<and> total_sks_kumulatif (projr (hitung_ipk ''M1'' db_zero)) = 0
   \<and> ipk (projr (hitung_ipk ''M1'' db_zero)) = 0
   \<and> s_total_sks (hd (detail_per_semester (projr (hitung_ipk ''M1'' db_zero)))) = 0
   \<and> s_ips (hd (detail_per_semester (projr (hitung_ipk ''M1'' db_zero)))) = 0"
  using division_guarded[of 0 0 "''M1''" 1 db_zero "''float division by zero''"
          "projr (hitung_ips ''M1'' 1 db_zero)" "projr (hitung_ipk ''M1'' db_zero)"
          "hd (detail_per_semester (projr (hitung_ipk ''M1'' db_zero)))"]
  by (simp add: hitung_ips_db_zero hitung_ipk_db_zero)

section \<open>Creating an enrollment\<close>

text \<open>
  Claim C5. A create-Enrollment request (\<^verbatim>\<open>create_nilai\<close>) fails with 404 when the student
  id is unknown, with 404 when the student is known and the course id is not, with the 400
  of a duplicate (the specification's Conflict) when student and course are known and a
  record with the same (student, course, term) exists (on a store that satisfies the
  invariants: whenever such a record exists), and otherwise (for an \<open>admin\<close> with a \<^verbatim>\<open>get\<close>, as the gate returns it) appends
  the record, with the request's grade (possibly absent) and the next identifier, and
  returns it. Whenever the handler, or the whole route with its admission gate and
  validation in front, fails, the store is the one before the request.
\<close>

theorem create_enrollment:
  "(krs_nim k \<notin> nim ` set (mahasiswa conn) \<longrightarrow>
      create_nilai k admin conn = (Inl (HTTPException 404 ''Mahasiswa tidak ditemukan''), conn))
   \<and> (krs_nim k \<in> nim ` set (mahasiswa conn)
        \<and> krs_kode_mk k \<notin> kode_mk ` set (mata_kuliah conn) \<longrightarrow>
      create_nilai k admin conn = (Inl (HTTPException 404 ''Mata kuliah tidak ditemukan''), conn))
   \<and> (krs_nim k \<in> nim ` set (mahasiswa conn) \<and> krs_kode_mk k \<in> kode_mk ` set (mata_kuliah conn)
        \<and> (krs_nim k, krs_kode_mk k, krs_semester k)
             \<in> (\<lambda>r. (k_nim r, k_kode_mk r, k_semester r)) ` set (krs conn) \<longrightarrow>
      create_nilai k admin conn =
        (Inl (HTTPException 400
               ''Mahasiswa sudah mengambil mata kuliah ini di semester yang sama''), conn))
   \<and> (krs_nim k \<in> nim ` set (mahasiswa conn) \<and> krs_kode_mk k \<in> kode_mk ` set (mata_kuliah conn)
        \<and> (krs_nim k, krs_kode_mk k, krs_semester k)
             \<notin> (\<lambda>r. (k_nim r, k_kode_mk r, k_semester r)) ` set (krs conn)
        \<and> py_get admin ''username'' = Inr username \<longrightarrow>
      create_nilai k admin conn =
        (Inr \<lparr>message = ''Nilai/KRS berhasil ditambahkan'',
              data = \<lparr>id_krs = krs_id_seq conn, k_nim = krs_nim k, k_kode_mk = krs_kode_mk k,
                      k_nilai = krs_nilai k, k_semester = krs_semester k\<rparr>,
              created_by = username\<rparr>,
         conn\<lparr>krs := krs conn @ [\<lparr>id_krs = krs_id_seq conn, k_nim = krs_nim k,
                                  k_kode_mk = krs_kode_mk k, k_nilai = krs_nilai k,
                                  k_semester = krs_semester k\<rparr>],
              krs_id_seq := krs_id_seq conn + 1\<rparr>))
   \<and> (wf_db conn
        \<and> (krs_nim k, krs_kode_mk k, krs_semester k)
             \<in> (\<lambda>r. (k_nim r, k_kode_mk r, k_semester r)) ` set (krs conn) \<longrightarrow>
      create_nilai k admin conn =
        (Inl (HTTPException 400
               ''Mahasiswa sudah mengambil mata kuliah ini di semester yang sama''), conn))
   \<and> (fst (create_nilai k admin conn) = Inl e \<longrightarrow> snd (create_nilai k admin conn) = conn)
   \<and> (fst (post_nilai authority authorization k conn) = Inl e \<longrightarrow>
        snd (post_nilai authority authorization k conn) = conn)"
proof (intro conjI impI)
  show "create_nilai k admin conn = (Inl (HTTPException 404 ''Mahasiswa tidak ditemukan''), conn)"
    if "krs_nim k \<notin> nim ` set (mahasiswa conn)"
    using that
    by (simp add: create_nilai_def get_db_connection_def create_nilai_body_def find_None_image)
  show "create_nilai k admin conn = (Inl (HTTPException 404 ''Mata kuliah tidak ditemukan''), conn)"
    if "krs_nim k \<in> nim ` set (mahasiswa conn)
        \<and> krs_kode_mk k \<notin> kode_mk ` set (mata_kuliah conn)"
    using that
    by (simp add: create_nilai_def get_db_connection_def create_nilai_body_def find_None_image)
  show "create_nilai k admin conn =
        (Inl (HTTPException 400
               ''Mahasiswa sudah mengambil mata kuliah ini di semester yang sama''), conn)"
    if "krs_nim k \<in> nim ` set (mahasiswa conn) \<and> krs_kode_mk k \<in> kode_mk ` set (mata_kuliah conn)
        \<and> (krs_nim k, krs_kode_mk k, krs_semester k)
             \<in> (\<lambda>r. (k_nim r, k_kode_mk r, k_semester r)) ` set (krs conn)"
    using that
    by (simp add: create_nilai_def get_db_connection_def create_nilai_body_def find_None_image
                  find_triple_None)
  show "create_nilai k admin conn =
        (Inr \<lparr>message = ''Nilai/KRS berhasil ditambahkan'',
              data = \<lparr>id_krs = krs_id_seq conn, k_nim = krs_nim k, k_kode_mk = krs_kode_mk k,
                      k_nilai = krs_nilai k, k_semester = krs_semester k\<rparr>,
              created_by = username\<rparr>,
         conn\<lparr>krs := krs conn @ [\<lparr>id_krs = krs_id_seq conn, k_nim = krs_nim k,
                                  k_kode_mk = krs_kode_mk k, k_nilai = krs_nilai k,
                                  k_semester = krs_semester k\<rparr>],
              krs_id_seq := krs_id_seq conn + 1\<rparr>)"
    if "krs_nim k \<in> nim ` set (mahasiswa conn) \<and> krs_kode_mk k \<in> kode_mk ` set (mata_kuliah conn)
        \<and> (krs_nim k, krs_kode_mk k, krs_semester k)
             \<notin> (\<lambda>r. (k_nim r, k_kode_mk r, k_semester r)) ` set (krs conn)
        \<and> py_get admin ''username'' = Inr username"
    using that
    by (simp add: create_nilai_def get_db_connection_def create_nilai_body_def find_None_image
                  find_triple_None Let_def)
  show "create_nilai k admin conn =
        (Inl (HTTPException 400
               ''Mahasiswa sudah mengambil mata kuliah ini di semester yang sama''), conn)"
    if "wf_db conn
        \<and> (krs_nim k, krs_kode_mk k, krs_semester k)
             \<in> (\<lambda>r. (k_nim r, k_kode_mk r, k_semester r)) ` set (krs conn)"
  proof -
    from that obtain r where "r \<in> set (krs conn)" "k_nim r = krs_nim k"
      "k_kode_mk r = krs_kode_mk k"
      by auto
    with that have "krs_nim k \<in> nim ` set (mahasiswa conn)"
      "krs_kode_mk k \<in> kode_mk ` set (mata_kuliah conn)"
      by (auto simp: wf_db_def)
    with that show ?thesis
      by (simp add: create_nilai_def get_db_connection_def create_nilai_body_def find_None_image
                    find_triple_None)
  qed
  show "snd (create_nilai k admin conn) = conn" if "fst (create_nilai k admin conn) = Inl e"
    using that by (rule create_nilai_failure)
  show "snd (post_nilai authority authorization k conn) = conn"
    if "fst (post_nilai authority authorization k conn) = Inl e"
    using that create_nilai_failure[of k _ conn]
    by (auto simp: post_nilai_def split: sum.splits if_splits)
qed

theorem create_enrollment_witness:
  "create_nilai krs_unknown_student admin_ex db_a =
     (Inl (HTTPException 404 ''Mahasiswa tidak ditemukan''), db_a)
   \<and> create_nilai krs_unknown_course admin_ex db_a =
     (Inl (HTTPException 404 ''Mata kuliah tidak ditemukan''), db_a)
   \<and> create_nilai krs_duplicate admin_ex db_a =
     (Inl (HTTPException 400
            ''Mahasiswa sudah mengambil mata kuliah ini di semester yang sama''), db_a)
   \<and> create_nilai krs_new admin_ex db_a =
     (Inr \<lparr>message = ''Nilai/KRS berhasil ditambahkan'',
           data = \<lparr>id_krs = 3, k_nim = ''M1'', k_kode_mk = ''IF1'', k_nilai = None,
                   k_semester = 2\<rparr>,
           created_by = JStr ''root''\<rparr>,
      db_a\<lparr>krs := krs db_a @ [\<lparr>id_krs = 3, k_nim = ''M1'', k_kode_mk = ''IF1'',
                               k_nilai = None, k_semester = 2\<rparr>],
           krs_id_seq := 4\<rparr>)
   \<and> wf_db db_a
   \<and> snd (create_nilai krs_duplicate admin_ex db_a) = db_a
   \<and> snd (post_nilai authority_ex (Some ''Bearer student'') krs_new db_a) = db_a"
  using wf_db_a create_enrollment[where k = krs_unknown_student and conn = db_a and admin = admin_ex]
        create_enrollment[where k = krs_unknown_course and conn = db_a and admin = admin_ex]
        create_enrollment[where k = krs_duplicate and conn = db_a and admin = admin_ex
          and e = "HTTPException 400
                     ''Mahasiswa sudah mengambil mata kuliah ini di semester yang sama''"]
        create_enrollment[where k = krs_new and conn = db_a and admin = admin_ex
          and username = "JStr ''root''"
          and e = "HTTPException 403 ''Access denied. Admin only.''"
          and authority = authority_ex and authorization = "Some ''Bearer student''"]
  by (simp add: krs_unknown_student_def krs_unknown_course_def krs_duplicate_def krs_new_def
                db_a_def student_ani_def student_budi_def admin_ex_def
                post_nilai_def
                verify_admin_def verify_admin_try_def authority_ex_def)

section \<open>The admission gate in front of the POST routes\<close>

text \<open>
  Claim C6. On a POST route the gate \<^verbatim>\<open>verify_admin\<close> ends a request without credential
  (no header, or an empty one) with 401; a credential that the reachable authority answers
  with a status other than 200 with 401; a credential that the authority accepts for a user
  whose role is not \<^verbatim>\<open>admin\<close> with 403; and an authority that cannot be reached, or does not
  answer in time, with 503. The three status codes are pairwise distinct. The gate lets a
  request through only on the authority's 200 with a user of role \<^verbatim>\<open>admin\<close>, and none of the
  three POST routes changes the store unless the gate has let the request through.
\<close>

theorem admission_gate:
  "(authorization = None \<or> authorization = Some [] \<longrightarrow>
      verify_admin authority authorization = Inl (HTTPException 401 ''No authorization header''))
   \<and> (a1 \<noteq> [] \<and> authority a1 = Response code body \<and> code \<noteq> 200 \<longrightarrow>
      verify_admin authority (Some a1) = Inl (HTTPException 401 ''Invalid token''))
   \<and> (a2 \<noteq> [] \<and> authority a2 = Response 200 (Inr (JObj d)) \<and> map_of d ''user'' = Some (JObj u)
        \<and> map_of u ''role'' \<noteq> Some (JStr ''admin'') \<longrightarrow>
      verify_admin authority (Some a2) = Inl (HTTPException 403 ''Access denied. Admin only.''))
   \<and> (a3 \<noteq> [] \<and> authority a3 = RaisesRequestError m \<longrightarrow>
      verify_admin authority (Some a3) = Inl (HTTPException 503 ''Auth service unavailable''))
   \<and> distinct [401, 403, 503 :: int]
   \<and> (verify_admin authority auth = Inr user \<longrightarrow>
        (\<exists>a d. auth = Some a \<and> a \<noteq> [] \<and> authority a = Response 200 (Inr (JObj d))
               \<and> py_get (JObj d) ''user'' = Inr user \<and> truthy user
               \<and> py_get user ''role'' = Inr (JStr ''admin'')))
   \<and> (snd (post_mahasiswa authority auth mhs conn) \<noteq> conn
        \<or> snd (post_mata_kuliah authority auth mk conn) \<noteq> conn
        \<or> snd (post_nilai authority auth k conn) \<noteq> conn \<longrightarrow>
        (\<exists>user. verify_admin authority auth = Inr user))"
proof (intro conjI impI)
  show "verify_admin authority authorization = Inl (HTTPException 401 ''No authorization header'')"
    if "authorization = None \<or> authorization = Some []"
    using that by (auto simp: verify_admin_def)
  show "verify_admin authority (Some a1) = Inl (HTTPException 401 ''Invalid token'')"
    if "a1 \<noteq> [] \<and> authority a1 = Response code body \<and> code \<noteq> 200"
    using that by (simp add: verify_admin_def verify_admin_try_def)
  show "verify_admin authority (Some a2) = Inl (HTTPException 403 ''Access denied. Admin only.'')"
    if "a2 \<noteq> [] \<and> authority a2 = Response 200 (Inr (JObj d)) \<and> map_of d ''user'' = Some (JObj u)
        \<and> map_of u ''role'' \<noteq> Some (JStr ''admin'')"
    using that by (auto simp: verify_admin_def verify_admin_try_def split: option.splits)
  show "verify_admin authority (Some a3) = Inl (HTTPException 503 ''Auth service unavailable'')"
    if "a3 \<noteq> [] \<and> authority a3 = RaisesRequestError m"
    using that by (simp add: verify_admin_def verify_admin_try_def)
  show "distinct [401, 403, 503 :: int]" by simp
  show "\<exists>a d. auth = Some a \<and> a \<noteq> [] \<and> authority a = Response 200 (Inr (JObj d))
               \<and> py_get (JObj d) ''user'' = Inr user \<and> truthy user
               \<and> py_get user ''role'' = Inr (JStr ''admin'')"
    if "verify_admin authority auth = Inr user"
    using that by (rule verify_admin_Inr)
  show "\<exists>user. verify_admin authority auth = Inr user"
    if "snd (post_mahasiswa authority auth mhs conn) \<noteq> conn
        \<or> snd (post_mata_kuliah authority auth mk conn) \<noteq> conn
        \<or> snd (post_nilai authority auth k conn) \<noteq> conn"
    using that
    by (cases "verify_admin authority auth")
       (auto simp: post_mahasiswa_def post_mata_kuliah_def post_nilai_def)
qed

theorem admission_gate_witness:
  "verify_admin authority_ex None = Inl (HTTPException 401 ''No authorization header'')
   \<and> authority_ex ''Bearer expired'' = Response 401 (Inr (JObj [(''error'', JStr ''invalid token'')]))
   \<and> verify_admin authority_ex (Some ''Bearer expired'') = Inl (HTTPException 401 ''Invalid token'')
   \<and> verify_admin authority_ex (Some ''Bearer student'')
       = Inl (HTTPException 403 ''Access denied. Admin only.'')
   \<and> authority_ex ''Bearer slow'' = RaisesRequestError ''timed out''
   \<and> verify_admin authority_ex (Some ''Bearer slow'')
       = Inl (HTTPException 503 ''Auth service unavailable'')
   \<and> verify_admin authority_ex (Some ''Bearer admin'') = Inr admin_ex
   \<and> py_get admin_ex ''role'' = Inr (JStr ''admin'')
   \<and> snd (post_nilai authority_ex (Some ''Bearer admin'') krs_new db_a) \<noteq> db_a"
  using admission_gate[where authority = authority_ex and authorization = None
          and ?a1.0 = "''Bearer expired''" and code = 401
          and body = "Inr (JObj [(''error'', JStr ''invalid token'')])"
          and ?a2.0 = "''Bearer student''"
          and d = "[(''user'', JObj [(''username'', JStr ''ani''), (''role'', JStr ''student'')])]"
          and u = "[(''username'', JStr ''ani''), (''role'', JStr ''student'')]"
          and ?a3.0 = "''Bearer slow''" and m = "''timed out''"
          and auth = "Some ''Bearer admin''" and user = admin_ex
          and mhs = student_ani and mk = "\<lparr>kode_mk = ''IF1'', nama_mk = ''Algoritma'', sks = 3\<rparr>"
          and k = krs_new and conn = db_a]
        verify_admin_ex
  by (simp add: authority_ex_def admin_ex_def post_nilai_def KRS_valid_def krs_new_def
                create_nilai_def get_db_connection_def create_nilai_body_def db_a_def
                student_ani_def student_budi_def Let_def)

end
